theory Spec2Isabelle
  imports Main "HOL-Library.Word" "HOL-Library.Multiset"
begin

unbundle bit_operations_syntax

section \<open>Data model of v4l2\_bridge.c\<close>

text \<open>
  The bridge relays buffers between two V4L2 queues. Everything the program does to the
  outside world is a system call; the model records each call as an \<open>event\<close>, with the
  request the program built, and takes what the kernel answered from an explicit
  environment value. A failed \<open>ASSERT\<close> prints a message and calls \<open>abort()\<close>: these are
  two events of the trace, and the \<open>Inl\<close> branch of every result, carrying what the
  message carries.
\<close>

type_synonym u32 = "32 word"
type_synonym s32 = "32 word"
type_synonym u16 = "16 word"

text \<open>
  Constants of the kernel interface (\<open>linux/videodev2.h\<close>, \<open>poll.h\<close>), at the values
  the kernel's user-space headers give them.
\<close>

definition V4L2_CAP_VIDEO_CAPTURE :: u32 where
  "V4L2_CAP_VIDEO_CAPTURE = 0x00000001"

definition V4L2_CAP_VIDEO_OUTPUT :: u32 where
  "V4L2_CAP_VIDEO_OUTPUT = 0x00000002"

definition V4L2_BUF_TYPE_VIDEO_CAPTURE :: u32 where
  "V4L2_BUF_TYPE_VIDEO_CAPTURE = 1"

definition V4L2_BUF_TYPE_VIDEO_OUTPUT :: u32 where
  "V4L2_BUF_TYPE_VIDEO_OUTPUT = 2"

definition V4L2_MEMORY_MMAP :: u32 where
  "V4L2_MEMORY_MMAP = 1"

definition V4L2_MEMORY_DMABUF :: u32 where
  "V4L2_MEMORY_DMABUF = 4"

definition POLLIN :: u16 where
  "POLLIN = 0x0001"

definition POLLOUT :: u16 where
  "POLLOUT = 0x0004"

text \<open>\<open>struct v4l2_pix_format\<close>: the fields the program reads by name, and the rest as sent.\<close>

record v4l2_pix_format =
  width :: u32
  height :: u32
  pixelformat :: u32
  pix_field :: u32
  bytesperline :: u32
  sizeimage :: u32
  colorspace :: u32

text \<open>\<open>struct device\<close>.\<close>

record device =
  devname :: string
  fd :: int
  type :: u32
  buf_type :: u32
  mem_type :: u32
  export :: bool

text \<open>\<open>struct config\<close>; \<open>fps\<close> is a C \<open>int\<close>, read with \<open>sint\<close>.\<close>

record config =
  fourcc :: u32
  format :: v4l2_pix_format
  num_buffers :: u32
  fps :: s32
  frame_us :: u32

text \<open>\<open>struct buffer\<close>.\<close>

record buffer =
  index :: u32
  dbuf_fd :: int

text \<open>
  \<open>struct stream\<close>. The fields \<open>in\<close> and \<open>out\<close> are \<open>in_dev\<close> and \<open>out_dev\<close> here;
  the \<open>pthread_t\<close> is not modelled.
\<close>

record stream =
  in_dev :: device
  out_dev :: device
  buffers :: "buffer list"
  config :: config

text \<open>The request structures handed to \<open>ioctl\<close>, as the program fills them after \<open>memset\<close>.\<close>

record v4l2_buffer =
  vb_index :: u32
  vb_type :: u32
  vb_memory :: u32
  vb_m_fd :: int

record v4l2_exportbuffer =
  eb_type :: u32
  eb_index :: u32
  eb_plane :: u32
  eb_flags :: u32
  eb_fd :: int

record v4l2_requestbuffers =
  rq_count :: u32
  rq_type :: u32
  rq_memory :: u32

datatype request =
    VIDIOC_QUERYCAP
  | VIDIOC_G_FMT u32
  | VIDIOC_S_FMT u32 v4l2_pix_format
  | VIDIOC_REQBUFS v4l2_requestbuffers
  | VIDIOC_EXPBUF v4l2_exportbuffer
  | VIDIOC_QBUF v4l2_buffer
  | VIDIOC_DQBUF v4l2_buffer u32
  | VIDIOC_STREAMON u32
  | VIDIOC_STREAMOFF u32

text \<open>
  What ends the process: the message of the failed \<open>ASSERT\<close> (with the values it prints),
  or the null pool that \<open>stream_init\<close> writes to when \<open>calloc\<close> fails.
\<close>

datatype fault =
    OpenFailed string
  | QuerycapFailed
  | NotSupported u32 u32
  | GFmtFailed
  | SFmtFailed
  | ReqbufsFailed
  | AllocatedOnly u32 u32
  | ExpbufFailed
  | QbufFailed u32
  | DqbufFailed
  | StreamonFailed
  | StreamoffFailed
  | NullPool

text \<open>\<open>struct timeval\<close> as \<open>gettimeofday\<close> fills it.\<close>

record timeval =
  tv_sec :: int
  tv_usec :: int

text \<open>
  An event is one call the program makes. \<open>Ioctl fd req ret\<close> carries the value the call
  returned; \<open>VIDIOC_DQBUF vb i\<close> carries the request and the index the driver wrote back;
  \<open>Gettimeofday\<close> carries the time it read. \<open>Printf\<close> is a line on the standard output,
  with the numbers it prints; \<open>Fprintf_stderr\<close> is the message of a failed \<open>ASSERT\<close> on
  the standard error, and \<open>Abort\<close> the call of \<open>abort()\<close> that follows it.
\<close>

datatype event =
    Open string int
  | Ioctl int request int
  | Poll int int int
  | Gettimeofday timeval
  | Usleep u32
  | Printf string "u32 list"
  | Fprintf_stderr fault
  | Abort

type_synonym 'a result = "event list \<times> (fault + 'a)"

text \<open>Sequencing: the trace grows, and a fault ends the run where it happens.\<close>

definition and_then :: "event list \<times> ('e + 'a) \<Rightarrow> ('a \<Rightarrow> event list \<times> ('e + 'b)) \<Rightarrow> event list \<times> ('e + 'b)" where
  "and_then m f =
     (case m of
        (t, Inl x) \<Rightarrow> (t, Inl x)
      | (t, Inr a) \<Rightarrow> (case f a of (t', r) \<Rightarrow> (t @ t', r)))"

text \<open>
  The macro \<open>ASSERT(cond, ...)\<close>: when the condition holds it prints the message on the
  standard error and calls \<open>abort()\<close>.
\<close>

definition ASSERT :: "bool \<Rightarrow> fault \<Rightarrow> unit result" where
  "ASSERT cond f = (if cond then ([Fprintf_stderr f, Abort], Inl f) else ([], Inr ()))"

text \<open>A call whose result is checked by the \<open>ASSERT\<close> on the next line.\<close>

definition checked :: "event \<Rightarrow> bool \<Rightarrow> fault \<Rightarrow> unit result" where
  "checked ev cond f = and_then ([ev], Inr ()) (\<lambda>_. ASSERT cond f)"

section \<open>Video device operations\<close>

text \<open>\<open>device_queue_buffer\<close>: the environment gives the return value of \<open>VIDIOC_QBUF\<close>.\<close>

definition qbuf_request :: "device \<Rightarrow> buffer \<Rightarrow> v4l2_buffer" where
  "qbuf_request d b =
     \<lparr>vb_index = index b, vb_type = buf_type d, vb_memory = mem_type d, vb_m_fd = dbuf_fd b\<rparr>"

definition device_queue_buffer :: "device \<Rightarrow> buffer \<Rightarrow> int \<Rightarrow> unit result" where
  "device_queue_buffer d b ret =
     checked (Ioctl (fd d) (VIDIOC_QBUF (qbuf_request d b)) ret) (ret \<noteq> 0)
       (QbufFailed (index b))"

text \<open>
  \<open>device_dequeue_buffer\<close>: the environment gives the return value and the index the
  driver stored in \<open>vb.index\<close>. The function returns \<open>&bs[vb.index]\<close> without comparing
  the index with the size of the pool: past the pool it hands out whatever the memory
  there holds, which the environment gives as \<open>mem\<close>.
\<close>

definition dqbuf_request :: "device \<Rightarrow> v4l2_buffer" where
  "dqbuf_request d =
     \<lparr>vb_index = 0, vb_type = type d, vb_memory = mem_type d, vb_m_fd = 0\<rparr>"

definition pool_entry :: "buffer list \<Rightarrow> (u32 \<Rightarrow> buffer) \<Rightarrow> u32 \<Rightarrow> buffer" where
  "pool_entry bs mem i = (if unat i < length bs then bs ! unat i else mem i)"

definition device_dequeue_buffer ::
  "device \<Rightarrow> buffer list \<Rightarrow> (u32 \<Rightarrow> buffer) \<Rightarrow> int \<times> u32 \<Rightarrow> buffer result" where
  "device_dequeue_buffer d bs mem r =
     (case r of (ret, i) \<Rightarrow>
        and_then (checked (Ioctl (fd d) (VIDIOC_DQBUF (dqbuf_request d) i) ret) (ret \<noteq> 0)
                    DqbufFailed) (\<lambda>_.
        ([], Inr (pool_entry bs mem i))))"

text \<open>
  \<open>device_prepare_buffer\<close>: on the exporting device, \<open>VIDIOC_EXPBUF\<close> with a request
  that is zero but for its type; the environment gives the return value and \<open>eb.fd\<close>.
\<close>

definition expbuf_request :: "device \<Rightarrow> v4l2_exportbuffer" where
  "expbuf_request d =
     \<lparr>eb_type = buf_type d, eb_index = 0, eb_plane = 0, eb_flags = 0, eb_fd = 0\<rparr>"

definition device_prepare_buffer :: "device \<Rightarrow> buffer \<Rightarrow> int \<times> int \<Rightarrow> buffer result" where
  "device_prepare_buffer d b r =
     (if export d then
        (case r of (res, efd) \<Rightarrow>
           and_then (checked (Ioctl (fd d) (VIDIOC_EXPBUF (expbuf_request d)) res) (res < 0)
                       ExpbufFailed) (\<lambda>_.
           ([], Inr (b\<lparr>dbuf_fd := efd\<rparr>))))
      else ([], Inr b))"

definition device_off :: "device \<Rightarrow> int \<Rightarrow> unit result" where
  "device_off d res =
     checked (Ioctl (fd d) (VIDIOC_STREAMOFF (buf_type d)) res) (res < 0) StreamoffFailed"

definition device_on :: "device \<Rightarrow> int \<Rightarrow> unit result" where
  "device_on d res =
     checked (Ioctl (fd d) (VIDIOC_STREAMON (buf_type d)) res) (res < 0) StreamonFailed"

text \<open>
  What the kernel answers during \<open>device_init\<close>: the descriptor from \<open>open\<close>, and for each
  \<open>ioctl\<close> its return value and what it wrote into the structure.
\<close>

record init_env =
  open_fd :: int
  querycap_ret :: int
  capabilities :: u32
  g_fmt_ret :: int
  g_fmt_pix :: v4l2_pix_format
  s_fmt_ret :: int
  g_fmt_final_ret :: int
  g_fmt_final_pix :: v4l2_pix_format
  reqbufs_ret :: int
  reqbufs_count :: u32

text \<open>The format \<open>VIDIOC_S_FMT\<close> is asked for: the shared config's, with the configured fourcc.\<close>

definition s_fmt_request :: "config \<Rightarrow> v4l2_pix_format" where
  "s_fmt_request c = (format c)\<lparr>pixelformat := fourcc c\<rparr>"

text \<open>The two \<open>printf\<close> lines of \<open>device_init\<close>.\<close>

definition print_format :: "string \<Rightarrow> v4l2_pix_format \<Rightarrow> unit result" where
  "print_format label p = ([Printf label [width p, height p, pixelformat p]], Inr ())"

definition device_init :: "device \<Rightarrow> config \<Rightarrow> u32 \<Rightarrow> init_env \<Rightarrow> (device \<times> config) result" where
  "device_init d0 c0 ty e =
     (let d1 = d0\<lparr>fd := open_fd e\<rparr> in
      and_then (checked (Open (devname d0) (open_fd e)) (fd d1 < 0) (OpenFailed (devname d0))) (\<lambda>_.
      and_then (checked (Ioctl (fd d1) VIDIOC_QUERYCAP (querycap_ret e)) (querycap_ret e \<noteq> 0)
                  QuerycapFailed) (\<lambda>_.
      and_then (ASSERT (NOT (capabilities e) AND ty \<noteq> 0) (NotSupported (capabilities e) ty)) (\<lambda>_.
      let d2 = d1\<lparr>type := ty\<rparr>;
          d3 = d2\<lparr>buf_type := (if type d2 = V4L2_CAP_VIDEO_CAPTURE
                                 then V4L2_BUF_TYPE_VIDEO_CAPTURE else V4L2_BUF_TYPE_VIDEO_OUTPUT)\<rparr>;
          d = d3\<lparr>mem_type := (if export d3 then V4L2_MEMORY_MMAP else V4L2_MEMORY_DMABUF)\<rparr>
      in
      and_then (checked (Ioctl (fd d) (VIDIOC_G_FMT (buf_type d)) (g_fmt_ret e)) (g_fmt_ret e < 0)
                  GFmtFailed) (\<lambda>_.
      and_then (print_format ''G_FMT(start)'' (g_fmt_pix e)) (\<lambda>_.
      let c1 = c0\<lparr>format := s_fmt_request c0\<rparr> in
      and_then (checked (Ioctl (fd d) (VIDIOC_S_FMT (buf_type d) (format c1)) (s_fmt_ret e))
                  (s_fmt_ret e < 0) SFmtFailed) (\<lambda>_.
      and_then (checked (Ioctl (fd d) (VIDIOC_G_FMT (buf_type d)) (g_fmt_final_ret e))
                  (g_fmt_final_ret e < 0) GFmtFailed) (\<lambda>_.
      and_then (print_format ''G_FMT(final)'' (g_fmt_final_pix e)) (\<lambda>_.
      and_then (checked (Ioctl (fd d)
                           (VIDIOC_REQBUFS \<lparr>rq_count = num_buffers c1, rq_type = buf_type d,
                                            rq_memory = mem_type d\<rparr>) (reqbufs_ret e))
                  (reqbufs_ret e < 0) ReqbufsFailed) (\<lambda>_.
      and_then (ASSERT (reqbufs_count e < num_buffers c1)
                  (AllocatedOnly (reqbufs_count e) (num_buffers c1))) (\<lambda>_.
      ([], Inr (d, c1\<lparr>format := g_fmt_final_pix e\<rparr>)))))))))))))"

text \<open>Every call of \<open>device_init\<close> before the buffer request went through.\<close>

definition reaches_reqbufs :: "init_env \<Rightarrow> u32 \<Rightarrow> bool" where
  "reaches_reqbufs e ty \<longleftrightarrow>
     0 \<le> open_fd e \<and> querycap_ret e = 0 \<and> NOT (capabilities e) AND ty = 0 \<and>
     0 \<le> g_fmt_ret e \<and> 0 \<le> s_fmt_ret e \<and> 0 \<le> g_fmt_final_ret e \<and> 0 \<le> reqbufs_ret e"

text \<open>The device as \<open>device_init\<close> fills it.\<close>

definition opened :: "device \<Rightarrow> u32 \<Rightarrow> init_env \<Rightarrow> device" where
  "opened d ty e =
     d\<lparr>fd := open_fd e, type := ty,
       buf_type := (if ty = V4L2_CAP_VIDEO_CAPTURE
                    then V4L2_BUF_TYPE_VIDEO_CAPTURE else V4L2_BUF_TYPE_VIDEO_OUTPUT),
       mem_type := (if export d then V4L2_MEMORY_MMAP else V4L2_MEMORY_DMABUF)\<rparr>"

section \<open>Stream operations\<close>

text \<open>\<open>stream_off\<close>, the cleanup handler: input first, then output.\<close>

definition stream_off :: "stream \<Rightarrow> int \<times> int \<Rightarrow> unit result" where
  "stream_off s r =
     and_then (device_off (in_dev s) (fst r)) (\<lambda>_. device_off (out_dev s) (snd r))"

text \<open>
  The conversion \<open>now.tv_sec * 1000000 + now.tv_usec\<close> stored into an \<open>unsigned int\<close>.
\<close>

definition usec_of :: "timeval \<Rightarrow> u32" where
  "usec_of now = word_of_int (tv_sec now * 1000000 + tv_usec now)"

text \<open>
  \<open>poll\<close> and \<open>usleep\<close> are the cancellation points of the worker: \<open>pthread_cancel\<close>
  takes effect there and runs the cleanup handler.
\<close>

datatype poll_result = PollCancelled | PollReturn int u16 u16

text \<open>
  What the environment answers during one pass of the \<open>while\<close> loop: the result of
  \<open>poll\<close> with the two \<open>revents\<close>, the two clock readings, whether a cancellation
  request is acted on in \<open>usleep\<close>, the results of the four buffer calls, and what the
  memory past the pool holds.
\<close>

record iter_env =
  poll_res :: poll_result
  now_before :: timeval
  usleep_cancelled :: bool
  now_after :: timeval
  in_dqbuf :: "int \<times> u32"
  out_qbuf :: int
  out_dqbuf :: "int \<times> u32"
  in_qbuf :: int
  beyond_pool :: "u32 \<Rightarrow> buffer"

text \<open>Why the worker leaves the loop.\<close>

datatype stop = PollDone | Cancelled | Crashed fault

definition crash :: "'a result \<Rightarrow> event list \<times> (stop + 'a)" where
  "crash m = (case m of (t, Inl f) \<Rightarrow> (t, Inl (Crashed f)) | (t, Inr a) \<Rightarrow> (t, Inr a))"

text \<open>
  The pacing block of the input branch (\<open>if (s->config.frame_us > 0) { ... }\<close>): it
  returns the new value of \<open>prev\<close>. All of \<open>curr\<close>, \<open>prev\<close>, \<open>delay\<close> and \<open>frame_us\<close>
  are \<open>unsigned int\<close>.
\<close>

definition pace :: "config \<Rightarrow> u32 \<Rightarrow> iter_env \<Rightarrow> event list \<times> (stop + u32)" where
  "pace c prev e =
     (if frame_us c > 0 then
        (let curr = usec_of (now_before e); delay = curr - prev in
         and_then ([Gettimeofday (now_before e)], Inr ()) (\<lambda>_.
         and_then (if delay < frame_us c
                   then ([Usleep (frame_us c - delay)],
                         if usleep_cancelled e then Inl Cancelled else Inr ())
                   else ([], Inr ())) (\<lambda>_.
         ([Gettimeofday (now_after e)], Inr (usec_of (now_after e))))))
      else ([], Inr prev))"

text \<open>The branch \<open>if (fds[0].revents & POLLIN)\<close>.\<close>

definition input_ready :: "stream \<Rightarrow> u32 \<Rightarrow> iter_env \<Rightarrow> event list \<times> (stop + u32)" where
  "input_ready s prev e =
     and_then (pace (config s) prev e) (\<lambda>prev'.
     and_then (crash (device_dequeue_buffer (in_dev s) (buffers s) (beyond_pool e) (in_dqbuf e)))
       (\<lambda>b.
     and_then (crash (device_queue_buffer (out_dev s) b (out_qbuf e))) (\<lambda>_.
     ([], Inr prev'))))"

text \<open>The branch \<open>if (fds[1].revents & POLLOUT)\<close>.\<close>

definition output_ready :: "stream \<Rightarrow> iter_env \<Rightarrow> event list \<times> (stop + unit)" where
  "output_ready s e =
     and_then (crash (device_dequeue_buffer (out_dev s) (buffers s) (beyond_pool e) (out_dqbuf e)))
       (\<lambda>b.
     crash (device_queue_buffer (in_dev s) b (in_qbuf e)))"

text \<open>One pass of \<open>while ((res = poll(fds, 2, 5000)) > 0)\<close>: \<open>Inr\<close> is the next \<open>prev\<close>.\<close>

definition relay_iter :: "stream \<Rightarrow> u32 \<Rightarrow> iter_env \<Rightarrow> event list \<times> (stop + u32)" where
  "relay_iter s prev e =
     (case poll_res e of
        PollCancelled \<Rightarrow> ([Poll (fd (in_dev s)) (fd (out_dev s)) 5000], Inl Cancelled)
      | PollReturn res r0 r1 \<Rightarrow>
          and_then ([Poll (fd (in_dev s)) (fd (out_dev s)) 5000],
                    if res > 0 then Inr () else Inl PollDone) (\<lambda>_.
          and_then (if r0 AND POLLIN \<noteq> 0 then input_ready s prev e else ([], Inr prev)) (\<lambda>prev'.
          and_then (if r1 AND POLLOUT \<noteq> 0 then output_ready s e else ([], Inr ())) (\<lambda>_.
          ([], Inr prev')))))"

text \<open>
  The loop over the passes the environment describes. The loop of the program has no
  bound; \<open>Inr prev\<close> says that the worker is still in the loop after the passes given,
  with that value of \<open>prev\<close>.
\<close>

fun relay_loop :: "stream \<Rightarrow> u32 \<Rightarrow> iter_env list \<Rightarrow> event list \<times> (stop + u32)" where
  "relay_loop s prev [] = ([], Inr prev)"
| "relay_loop s prev (e # es) =
     and_then (relay_iter s prev e) (\<lambda>prev'. relay_loop s prev' es)"

text \<open>
  How the worker ends: it returned from \<open>stream_on\<close>, it was cancelled, the process was
  ended by \<open>abort()\<close>, or it is still in its loop.
\<close>

datatype outcome = Returned | WorkerCancelled | Aborted fault | Running

record on_env =
  on_in_ret :: int
  on_out_ret :: int
  iters :: "iter_env list"
  off_in_ret :: int
  off_out_ret :: int

text \<open>
  \<open>stream_on\<close>: the cleanup handler \<open>stream_off\<close> is pushed first; it runs when the loop
  ends (\<open>pthread_cleanup_pop\<close> with a non-null argument) and when the thread is
  cancelled. \<open>abort()\<close> ends the process without running it. \<open>prev\<close> starts at 0.
\<close>

definition stream_on :: "stream \<Rightarrow> on_env \<Rightarrow> event list \<times> outcome" where
  "stream_on s e =
     (case and_then (device_on (in_dev s) (on_in_ret e))
                    (\<lambda>_. device_on (out_dev s) (on_out_ret e)) of
        (t, Inl f) \<Rightarrow> (t, Aborted f)
      | (t, Inr _) \<Rightarrow>
          (case relay_loop s 0 (iters e) of
             (t', Inr prev) \<Rightarrow> (t @ t', Running)
           | (t', Inl (Crashed f)) \<Rightarrow> (t @ t', Aborted f)
           | (t', Inl x) \<Rightarrow>
               (case stream_off s (off_in_ret e, off_out_ret e) of
                  (t'', Inl f) \<Rightarrow> (t @ t' @ t'', Aborted f)
                | (t'', Inr _) \<Rightarrow>
                    (t @ t' @ t'', if x = PollDone then Returned else WorkerCancelled))))"

text \<open>
  What the environment answers during \<open>stream_init\<close>: the two device negotiations,
  whether \<open>calloc\<close> returned memory, and per pool index the answers to
  \<open>VIDIOC_EXPBUF\<close> on either device and to the priming \<open>VIDIOC_QBUF\<close>.
\<close>

record stream_env =
  in_init :: init_env
  out_init :: init_env
  calloc_ok :: bool
  in_expbuf :: "nat \<Rightarrow> int \<times> int"
  out_expbuf :: "nat \<Rightarrow> int \<times> int"
  prime_qbuf :: "nat \<Rightarrow> int"

text \<open>The first \<open>for\<close> loop of \<open>stream_init\<close>, over the indices still to do.\<close>

fun prepare_buffers ::
  "device \<Rightarrow> device \<Rightarrow> (nat \<Rightarrow> int \<times> int) \<Rightarrow> (nat \<Rightarrow> int \<times> int) \<Rightarrow> nat list \<Rightarrow> buffer list
     \<Rightarrow> (buffer list) result" where
  "prepare_buffers din dout ei eo [] bs = ([], Inr bs)"
| "prepare_buffers din dout ei eo (i # js) bs =
     and_then (device_prepare_buffer din ((bs ! i)\<lparr>index := of_nat i\<rparr>) (ei i)) (\<lambda>b1.
     and_then (device_prepare_buffer dout b1 (eo i)) (\<lambda>b2.
     prepare_buffers din dout ei eo js (bs[i := b2])))"

text \<open>The second \<open>for\<close> loop: every buffer is queued to the input device.\<close>

fun queue_buffers :: "device \<Rightarrow> (nat \<Rightarrow> int) \<Rightarrow> nat list \<Rightarrow> buffer list \<Rightarrow> unit result" where
  "queue_buffers d q [] bs = ([], Inr ())"
| "queue_buffers d q (i # js) bs =
     and_then (device_queue_buffer d (bs ! i) (q i)) (\<lambda>_. queue_buffers d q js bs)"

text \<open>
  \<open>frame_us\<close> as \<open>stream_init\<close> computes it from \<open>fps\<close>: \<open>(10000000 / fps) / 10\<close> in
  \<open>int\<close> for a positive rate, and \<open>-1\<close> stored into the \<open>unsigned int\<close> otherwise.
\<close>

definition frame_us_of :: "s32 \<Rightarrow> u32" where
  "frame_us_of f =
     (if 0 < sint f then word_of_int ((10000000 div sint f) div 10) else - 1)"

text \<open>
  \<open>stream_init\<close>. \<open>calloc\<close> gives a zeroed pool; a null pool is dereferenced by the first
  pass of the loop. The loop counter is a C \<open>int\<close> compared with the unsigned buffer
  count; the model follows it for counts an \<open>int\<close> holds.
\<close>

definition stream_init :: "stream \<Rightarrow> stream_env \<Rightarrow> stream result" where
  "stream_init s e =
     and_then (device_init (in_dev s) (config s) V4L2_CAP_VIDEO_CAPTURE (in_init e)) (\<lambda>(din, c1).
     and_then (device_init (out_dev s) c1 V4L2_CAP_VIDEO_OUTPUT (out_init e)) (\<lambda>(dout, c2).
     let n = unat (num_buffers c2) in
     and_then ([], if n \<noteq> 0 \<and> \<not> calloc_ok e then Inl NullPool
                   else Inr (replicate n \<lparr>index = 0, dbuf_fd = 0\<rparr>)) (\<lambda>bs0.
     and_then (prepare_buffers din dout (in_expbuf e) (out_expbuf e) [0..<n] bs0) (\<lambda>bs.
     and_then (queue_buffers din (prime_qbuf e) [0..<n] bs) (\<lambda>_.
     ([], Inr \<lparr>in_dev = din, out_dev = dout, buffers = bs,
               config = c2\<lparr>frame_us := frame_us_of (fps c2)\<rparr>\<rparr>))))))"

section \<open>Ownership of the buffers\<close>














section \<open>Observations on a run\<close>

text \<open>The geometry of a format: width, height and pixel format.\<close>

definition geometry :: "v4l2_pix_format \<Rightarrow> u32 \<times> u32 \<times> u32" where
  "geometry p = (width p, height p, pixelformat p)"

text \<open>The buffer indices that the \<open>VIDIOC_EXPBUF\<close> requests of a trace name, in order.\<close>

fun exported_indices :: "event list \<Rightarrow> u32 list" where
  "exported_indices [] = []"
| "exported_indices (Ioctl f (VIDIOC_EXPBUF r) x # t) = eb_index r # exported_indices t"
| "exported_indices (ev # t) = exported_indices t"

text \<open>The stop calls of a trace: descriptor and buffer type of every \<open>VIDIOC_STREAMOFF\<close>.\<close>

fun stop_calls :: "event list \<Rightarrow> (int \<times> u32) list" where
  "stop_calls [] = []"
| "stop_calls (Ioctl f (VIDIOC_STREAMOFF ty) x # t) = (f, ty) # stop_calls t"
| "stop_calls (ev # t) = stop_calls t"

text \<open>The pacing sleeps of a trace: the argument of every \<open>usleep\<close>.\<close>

fun sleeps :: "event list \<Rightarrow> u32 list" where
  "sleeps [] = []"
| "sleeps (Usleep u # t) = u # sleeps t"
| "sleeps (ev # t) = sleeps t"


text \<open>
  The pacing sleeps that fall between a dequeue from the input device and the next enqueue
  to the output device. The flag says whether a buffer dequeued from the input device is
  waiting for its enqueue: a successful \<open>VIDIOC_DQBUF\<close> on the input descriptor sets it,
  a \<open>VIDIOC_QBUF\<close> on the output descriptor clears it.
\<close>

fun gap_open :: "int \<Rightarrow> int \<Rightarrow> bool \<Rightarrow> event \<Rightarrow> bool" where
  "gap_open fi fo g (Ioctl f (VIDIOC_DQBUF vb i) ret) = (if f = fi \<and> ret = 0 then True else g)"
| "gap_open fi fo g (Ioctl f (VIDIOC_QBUF vb) ret) = (if f = fo then False else g)"
| "gap_open fi fo g ev = g"

fun gap_sleeps :: "int \<Rightarrow> int \<Rightarrow> bool \<Rightarrow> event list \<Rightarrow> u32 list" where
  "gap_sleeps fi fo g [] = []"
| "gap_sleeps fi fo g (Usleep u # t) = (if g then [u] else []) @ gap_sleeps fi fo g t"
| "gap_sleeps fi fo g (ev # t) = gap_sleeps fi fo (gap_open fi fo g ev) t"

text \<open>What a trace writes: the lines on the standard output and on the standard error.\<close>

fun reports :: "event list \<Rightarrow> event list" where
  "reports [] = []"
| "reports (Printf l xs # t) = Printf l xs # reports t"
| "reports (Fprintf_stderr f # t) = Fprintf_stderr f # reports t"
| "reports (ev # t) = reports t"



text \<open>
  What the environment answers in a pass, in the words of the loop: whether \<open>poll\<close>
  returned a positive value, and with it reported the input or the output ready; whether
  the calls of a branch succeed (for the input branch, with the pacing sleep not
  cancelled).
\<close>

definition polled :: "iter_env \<Rightarrow> bool" where
  "polled p = (case poll_res p of PollCancelled \<Rightarrow> False | PollReturn res r0 r1 \<Rightarrow> 0 < res)"

definition input_polled :: "iter_env \<Rightarrow> bool" where
  "input_polled p =
     (case poll_res p of PollCancelled \<Rightarrow> False
      | PollReturn res r0 r1 \<Rightarrow> 0 < res \<and> r0 AND POLLIN \<noteq> 0)"

definition output_polled :: "iter_env \<Rightarrow> bool" where
  "output_polled p =
     (case poll_res p of PollCancelled \<Rightarrow> False
      | PollReturn res r0 r1 \<Rightarrow> 0 < res \<and> r1 AND POLLOUT \<noteq> 0)"

definition input_calls_ok :: "iter_env \<Rightarrow> bool" where
  "input_calls_ok p \<longleftrightarrow> \<not> usleep_cancelled p \<and> fst (in_dqbuf p) = 0 \<and> out_qbuf p = 0"

definition output_calls_ok :: "iter_env \<Rightarrow> bool" where
  "output_calls_ok p \<longleftrightarrow> fst (out_dqbuf p) = 0 \<and> in_qbuf p = 0"

text \<open>A pass that the loop completes: every call of the branches taken succeeds.\<close>

definition pass_ok :: "iter_env \<Rightarrow> bool" where
  "pass_ok p \<longleftrightarrow>
     polled p \<and> (input_polled p \<longrightarrow> input_calls_ok p)
     \<and> (output_polled p \<longrightarrow> output_calls_ok p)"

text \<open>
  The calls of the input branch are reached: \<open>poll\<close> reported the input ready and the
  pacing sleep is not cancelled. The calls of the output branch are reached: \<open>poll\<close>
  reported the output ready and the input branch, if taken, went through.
\<close>

definition input_reached :: "iter_env \<Rightarrow> bool" where
  "input_reached p \<longleftrightarrow> input_polled p \<and> \<not> usleep_cancelled p"

definition output_reached :: "iter_env \<Rightarrow> bool" where
  "output_reached p \<longleftrightarrow>
     output_polled p \<and> (input_polled p \<longrightarrow> input_calls_ok p)"

text \<open>
  The worker is in pass \<open>p\<close> of its loop: both devices were turned on, the passes \<open>ps\<close>
  before it were completed, and \<open>p\<close> is the next one.
\<close>

definition in_pass :: "on_env \<Rightarrow> iter_env list \<Rightarrow> iter_env \<Rightarrow> bool" where
  "in_pass e ps p \<longleftrightarrow>
     0 \<le> on_in_ret e \<and> 0 \<le> on_out_ret e \<and> list_all pass_ok ps
     \<and> take (Suc (length ps)) (iters e) = ps @ [p]"

text \<open>The two calls of \<open>stream_on\<close> that turn the devices on, when both succeed.\<close>

definition turned_on :: "stream \<Rightarrow> on_env \<Rightarrow> event list" where
  "turned_on s e =
     [Ioctl (fd (in_dev s)) (VIDIOC_STREAMON (buf_type (in_dev s))) (on_in_ret e),
      Ioctl (fd (out_dev s)) (VIDIOC_STREAMON (buf_type (out_dev s))) (on_out_ret e)]"

text \<open>
  Names for the calls of a pass: the \<open>poll\<close>, the dequeue and the enqueue on a device,
  the buffer that the dequeue of a branch returns, and the two calls of each branch.
\<close>

abbreviation poll_call :: "stream \<Rightarrow> event" where
  "poll_call s \<equiv> Poll (fd (in_dev s)) (fd (out_dev s)) 5000"

abbreviation dequeue_call :: "device \<Rightarrow> int \<times> u32 \<Rightarrow> event" where
  "dequeue_call d r \<equiv> Ioctl (fd d) (VIDIOC_DQBUF (dqbuf_request d) (snd r)) (fst r)"

abbreviation enqueue_call :: "device \<Rightarrow> buffer \<Rightarrow> int \<Rightarrow> event" where
  "enqueue_call d b ret \<equiv> Ioctl (fd d) (VIDIOC_QBUF (qbuf_request d b)) ret"

abbreviation in_buffer :: "stream \<Rightarrow> iter_env \<Rightarrow> buffer" where
  "in_buffer s p \<equiv> pool_entry (buffers s) (beyond_pool p) (snd (in_dqbuf p))"

abbreviation out_buffer :: "stream \<Rightarrow> iter_env \<Rightarrow> buffer" where
  "out_buffer s p \<equiv> pool_entry (buffers s) (beyond_pool p) (snd (out_dqbuf p))"

abbreviation hand_off :: "stream \<Rightarrow> iter_env \<Rightarrow> event list" where
  "hand_off s p \<equiv>
     [dequeue_call (in_dev s) (in_dqbuf p), enqueue_call (out_dev s) (in_buffer s p) (out_qbuf p)]"

abbreviation hand_back :: "stream \<Rightarrow> iter_env \<Rightarrow> event list" where
  "hand_back s p \<equiv>
     [dequeue_call (out_dev s) (out_dqbuf p), enqueue_call (in_dev s) (out_buffer s p) (in_qbuf p)]"

text \<open>The value of \<open>prev\<close> when the loop has completed the passes \<open>ps\<close>.\<close>

definition prev_after :: "stream \<Rightarrow> iter_env list \<Rightarrow> u32" where
  "prev_after s ps = (case snd (relay_loop s 0 ps) of Inr q \<Rightarrow> q | Inl x \<Rightarrow> 0)"

text \<open>
  A cancellation request is acted on in the pacing sleep of pass \<open>p\<close>, entered with
  \<open>prev = q\<close>: the input branch is taken, it calls \<open>usleep\<close>, and the thread is
  cancelled there.
\<close>

definition cancelled_in_sleep :: "stream \<Rightarrow> u32 \<Rightarrow> iter_env \<Rightarrow> bool" where
  "cancelled_in_sleep s q p \<longleftrightarrow>
     input_polled p \<and> usleep_cancelled p \<and> 0 < frame_us (config s)
     \<and> usec_of (now_before p) - q < frame_us (config s)"

text \<open>The calls of a pass before the hand-back of the output branch.\<close>

definition input_part :: "stream \<Rightarrow> u32 \<Rightarrow> iter_env \<Rightarrow> event list" where
  "input_part s q p =
     poll_call s # (if input_polled p then fst (pace (config s) q p) @ hand_off s p else [])"

text \<open>The stop calls of the cleanup handler when both succeed.\<close>

definition turned_off :: "stream \<Rightarrow> on_env \<Rightarrow> event list" where
  "turned_off s e =
     [Ioctl (fd (in_dev s)) (VIDIOC_STREAMOFF (buf_type (in_dev s))) (off_in_ret e),
      Ioctl (fd (out_dev s)) (VIDIOC_STREAMOFF (buf_type (out_dev s))) (off_out_ret e)]"

section \<open>Concrete runs\<close>

text \<open>
  One stream, \<open>/dev/video0:/dev/video1@o@fps:2:640,480:YUYV\<close>, and answers of the kernel
  to it. They are the inputs at which the theorems below are evaluated.
\<close>

definition ex_pix :: "u32 \<Rightarrow> u32 \<Rightarrow> v4l2_pix_format" where
  "ex_pix w h =
     \<lparr>width = w, height = h, pixelformat = 0x56595559, pix_field = 1,
      bytesperline = 2 * w, sizeimage = 2 * w * h, colorspace = 8\<rparr>"

definition ex_stream :: "s32 \<Rightarrow> stream" where
  "ex_stream f =
     \<lparr>in_dev = \<lparr>devname = ''/dev/video0'', fd = 0, type = 0, buf_type = 0, mem_type = 0,
                export = False\<rparr>,
      out_dev = \<lparr>devname = ''/dev/video1'', fd = 0, type = 0, buf_type = 0, mem_type = 0,
                 export = True\<rparr>,
      buffers = [],
      config = \<lparr>fourcc = 0x56595559,
                format = \<lparr>width = 640, height = 480, pixelformat = 0, pix_field = 0,
                          bytesperline = 0, sizeimage = 0, colorspace = 0\<rparr>,
                num_buffers = 2, fps = f, frame_us = 0\<rparr>\<rparr>"

definition ex_init_env :: "int \<Rightarrow> v4l2_pix_format \<Rightarrow> u32 \<Rightarrow> init_env" where
  "ex_init_env f p n =
     \<lparr>open_fd = f, querycap_ret = 0, capabilities = 0x04200003, g_fmt_ret = 0,
      g_fmt_pix = ex_pix 1920 1080, s_fmt_ret = 0,
      g_fmt_final_ret = 0, g_fmt_final_pix = p, reqbufs_ret = 0, reqbufs_count = n\<rparr>"

definition ex_stream_env :: "v4l2_pix_format \<Rightarrow> stream_env" where
  "ex_stream_env p =
     \<lparr>in_init = ex_init_env 3 (ex_pix 640 480) 2, out_init = ex_init_env 4 p 2,
      calloc_ok = True, in_expbuf = (\<lambda>i. (0, 0)), out_expbuf = (\<lambda>i. (0, 10 + int i)),
      prime_qbuf = (\<lambda>i. 0)\<rparr>"

text \<open>The stream as \<open>stream_init\<close> leaves it in that run (shown below to be its result).\<close>

definition ex_ready :: "s32 \<Rightarrow> stream" where
  "ex_ready f =
     \<lparr>in_dev = \<lparr>devname = ''/dev/video0'', fd = 3, type = 1, buf_type = 1, mem_type = 4,
                export = False\<rparr>,
      out_dev = \<lparr>devname = ''/dev/video1'', fd = 4, type = 2, buf_type = 2, mem_type = 1,
                 export = True\<rparr>,
      buffers = [\<lparr>index = 0, dbuf_fd = 10\<rparr>, \<lparr>index = 1, dbuf_fd = 11\<rparr>],
      config = \<lparr>fourcc = 0x56595559, format = ex_pix 640 480,
                num_buffers = 2, fps = f, frame_us = frame_us_of f\<rparr>\<rparr>"

text \<open>
  Passes of the loop: input ready (the driver returns index \<open>i\<close>), output ready, and a
  \<open>poll\<close> that times out. The clock reads 1.000000 s before the pacing sleep.
\<close>

definition ex_pass :: "int \<Rightarrow> u16 \<Rightarrow> u16 \<Rightarrow> u32 \<Rightarrow> iter_env" where
  "ex_pass res r0 r1 i =
     \<lparr>poll_res = PollReturn res r0 r1,
      now_before = \<lparr>tv_sec = 1, tv_usec = 0\<rparr>, usleep_cancelled = False,
      now_after = \<lparr>tv_sec = 2, tv_usec = 0\<rparr>,
      in_dqbuf = (0, i), out_qbuf = 0, out_dqbuf = (0, i), in_qbuf = 0,
      beyond_pool = (\<lambda>i. \<lparr>index = 0, dbuf_fd = 0\<rparr>)\<rparr>"

definition ex_on_env :: "iter_env list \<Rightarrow> on_env" where
  "ex_on_env ps = \<lparr>on_in_ret = 0, on_out_ret = 0, iters = ps, off_in_ret = 0, off_out_ret = 0\<rparr>"


section \<open>Properties\<close>

subsection \<open>Sequencing\<close>

lemma and_then_Inl [simp]: "and_then (t, Inl x) f = (t, Inl x)"
  by (simp add: and_then_def)

lemma and_then_Inr [simp]: "and_then (t, Inr a) f = (t @ fst (f a), snd (f a))"
  by (simp add: and_then_def split: prod.splits)

lemma fst_and_then:
  "fst (and_then m f) = fst m @ (case snd m of Inl x \<Rightarrow> [] | Inr a \<Rightarrow> fst (f a))"
  by (cases m) (simp split: sum.splits)

lemma snd_and_then:
  "snd (and_then m f) = (case snd m of Inl x \<Rightarrow> Inl x | Inr a \<Rightarrow> snd (f a))"
  by (cases m) (simp split: sum.splits)

lemma and_then_assoc:
  "and_then (and_then m f) g = and_then m (\<lambda>a. and_then (f a) g)"
  by (cases m; cases "snd m")
     (auto simp: and_then_def split: prod.splits sum.splits)

lemma checked_eq:
  "checked ev cond f = (if cond then ([ev, Fprintf_stderr f, Abort], Inl f) else ([ev], Inr ()))"
  by (simp add: checked_def ASSERT_def)

subsection \<open>Device negotiation\<close>

lemma device_init_reaches:
  "reaches_reqbufs e ty \<Longrightarrow>
   snd (device_init d c ty e) =
     (if reqbufs_count e < num_buffers c
      then Inl (AllocatedOnly (reqbufs_count e) (num_buffers c))
      else Inr (opened d ty e, c\<lparr>format := g_fmt_final_pix e\<rparr>))"
  by (simp add: device_init_def reaches_reqbufs_def opened_def Let_def s_fmt_request_def
      checked_eq ASSERT_def print_format_def)

lemma device_init_Inr:
  "snd (device_init d c ty e) = Inr r \<Longrightarrow>
   reaches_reqbufs e ty \<and> \<not> reqbufs_count e < num_buffers c"
  by (simp add: device_init_def reaches_reqbufs_def Let_def s_fmt_request_def
      checked_eq ASSERT_def print_format_def split: if_splits)

lemma device_init_Inr_eq:
  assumes "snd (device_init d c ty e) = Inr r"
  shows "r = (opened d ty e, c\<lparr>format := g_fmt_final_pix e\<rparr>)"
  using device_init_Inr [OF assms] device_init_reaches [of e ty d c] assms by simp

text \<open>
  C7. A device that grants fewer buffers than requested ends setup with the message
  "allocated only \<open>granted\<close> of \<open>requested\<close> buffers"; setup goes on exactly when the
  granted count is at least the requested one. Stated for a negotiation in which every
  call before the buffer request succeeded, and, for the last part, for every negotiation.
\<close>

theorem C7_allocation_shortfall:
  "(reaches_reqbufs e ty \<and> reqbufs_count e < num_buffers c \<longrightarrow>
      snd (device_init d c ty e) = Inl (AllocatedOnly (reqbufs_count e) (num_buffers c)))
   \<and> (reaches_reqbufs e ty \<and> num_buffers c \<le> reqbufs_count e \<longrightarrow>
      (\<exists>r. snd (device_init d c ty e) = Inr r))
   \<and> (\<forall>r. snd (device_init d c ty e) = Inr r \<longrightarrow> num_buffers c \<le> reqbufs_count e)"
proof (intro conjI impI allI)
  assume "reaches_reqbufs e ty \<and> reqbufs_count e < num_buffers c"
  then show "snd (device_init d c ty e) = Inl (AllocatedOnly (reqbufs_count e) (num_buffers c))"
    by (simp add: device_init_reaches)
next
  assume "reaches_reqbufs e ty \<and> num_buffers c \<le> reqbufs_count e"
  then show "\<exists>r. snd (device_init d c ty e) = Inr r"
    by (simp add: device_init_reaches not_less [symmetric])
next
  fix r
  assume "snd (device_init d c ty e) = Inr r"
  from device_init_Inr [OF this] show "num_buffers c \<le> reqbufs_count e"
    by (simp add: not_less)
qed

text \<open>
  The scenario of the specification: 3 of 4 requested buffers are granted. The same
  device granting 4 is accepted.
\<close>

theorem C7_allocation_shortfall_witness:
  "reaches_reqbufs (ex_init_env 3 (ex_pix 640 480) 3) V4L2_CAP_VIDEO_CAPTURE
   \<and> reqbufs_count (ex_init_env 3 (ex_pix 640 480) 3)
       < num_buffers ((config (ex_stream 5))\<lparr>num_buffers := 4\<rparr>)
   \<and> snd (device_init (in_dev (ex_stream 5)) ((config (ex_stream 5))\<lparr>num_buffers := 4\<rparr>)
            V4L2_CAP_VIDEO_CAPTURE (ex_init_env 3 (ex_pix 640 480) 3))
       = Inl (AllocatedOnly 3 4)"
proof -
  have r: "reaches_reqbufs (ex_init_env 3 (ex_pix 640 480) 3) V4L2_CAP_VIDEO_CAPTURE"
    by (simp add: reaches_reqbufs_def ex_init_env_def V4L2_CAP_VIDEO_CAPTURE_def)
  have n: "reqbufs_count (ex_init_env 3 (ex_pix 640 480) 3)
             < num_buffers ((config (ex_stream 5))\<lparr>num_buffers := 4\<rparr>)"
    by (simp add: ex_init_env_def)
  from r n
    C7_allocation_shortfall [of "ex_init_env 3 (ex_pix 640 480) 3" V4L2_CAP_VIDEO_CAPTURE
      "(config (ex_stream 5))\<lparr>num_buffers := 4\<rparr>" "in_dev (ex_stream 5)"]
  show ?thesis by (simp add: ex_init_env_def)
qed

lemma device_init_trace:
  "reaches_reqbufs e ty \<Longrightarrow>
   fst (device_init d c ty e) =
     [Open (devname d) (open_fd e),
      Ioctl (open_fd e) VIDIOC_QUERYCAP (querycap_ret e),
      Ioctl (open_fd e) (VIDIOC_G_FMT (buf_type (opened d ty e))) (g_fmt_ret e),
      Printf ''G_FMT(start)''
        [width (g_fmt_pix e), height (g_fmt_pix e), pixelformat (g_fmt_pix e)],
      Ioctl (open_fd e) (VIDIOC_S_FMT (buf_type (opened d ty e)) (s_fmt_request c)) (s_fmt_ret e),
      Ioctl (open_fd e) (VIDIOC_G_FMT (buf_type (opened d ty e))) (g_fmt_final_ret e),
      Printf ''G_FMT(final)''
        [width (g_fmt_final_pix e), height (g_fmt_final_pix e), pixelformat (g_fmt_final_pix e)],
      Ioctl (open_fd e)
        (VIDIOC_REQBUFS \<lparr>rq_count = num_buffers c, rq_type = buf_type (opened d ty e),
                         rq_memory = mem_type (opened d ty e)\<rparr>) (reqbufs_ret e)]
     @ fst (ASSERT (reqbufs_count e < num_buffers c)
              (AllocatedOnly (reqbufs_count e) (num_buffers c)))"
  by (simp add: device_init_def reaches_reqbufs_def opened_def Let_def s_fmt_request_def
      checked_eq ASSERT_def print_format_def)

text \<open>
  C10. After \<open>device_init\<close> in either role, the type that \<open>device_dequeue_buffer\<close> puts
  in its request (the capability constant kept in \<open>type\<close>) is the buffer type that
  \<open>device_queue_buffer\<close>, \<open>device_on\<close> and \<open>device_off\<close> use (\<open>buf_type\<close>): the capture
  capability and the capture buffer type are both 1, the output ones both 2.
\<close>

theorem C10_dequeue_type:
  assumes "ty = V4L2_CAP_VIDEO_CAPTURE \<or> ty = V4L2_CAP_VIDEO_OUTPUT"
    and "snd (device_init d0 c0 ty e) = Inr (d, c)"
  shows "vb_type (dqbuf_request d) = vb_type (qbuf_request d b)
       \<and> vb_type (dqbuf_request d) = buf_type d
       \<and> vb_type (dqbuf_request d) = ty
       \<and> fst (device_on d r) =
           Ioctl (fd d) (VIDIOC_STREAMON (vb_type (dqbuf_request d))) r
             # fst (ASSERT (r < 0) StreamonFailed)
       \<and> fst (device_off d r) =
           Ioctl (fd d) (VIDIOC_STREAMOFF (vb_type (dqbuf_request d))) r
             # fst (ASSERT (r < 0) StreamoffFailed)
       \<and> V4L2_CAP_VIDEO_CAPTURE = V4L2_BUF_TYPE_VIDEO_CAPTURE
       \<and> V4L2_CAP_VIDEO_OUTPUT = V4L2_BUF_TYPE_VIDEO_OUTPUT"
proof -
  from device_init_Inr_eq [OF assms(2)] have d: "d = opened d0 ty e"
    by simp
  have t: "type d = ty"
    by (simp add: d opened_def)
  from assms(1) have b: "buf_type d = ty"
    by (auto simp: d opened_def V4L2_CAP_VIDEO_CAPTURE_def V4L2_CAP_VIDEO_OUTPUT_def
        V4L2_BUF_TYPE_VIDEO_CAPTURE_def V4L2_BUF_TYPE_VIDEO_OUTPUT_def)
  show ?thesis
    by (simp add: t b dqbuf_request_def qbuf_request_def device_on_def device_off_def
        checked_eq ASSERT_def
        V4L2_CAP_VIDEO_CAPTURE_def V4L2_CAP_VIDEO_OUTPUT_def
        V4L2_BUF_TYPE_VIDEO_CAPTURE_def V4L2_BUF_TYPE_VIDEO_OUTPUT_def)
qed

lemma ex_out_init:
  "snd (device_init (out_dev (ex_stream 5)) (config (ex_stream 5)) V4L2_CAP_VIDEO_OUTPUT
         (ex_init_env 4 (ex_pix 640 480) 2))
   = Inr (out_dev (ex_ready 5), (config (ex_stream 5))\<lparr>format := ex_pix 640 480\<rparr>)"
  by (simp add: device_init_def ex_stream_def ex_init_env_def ex_ready_def Let_def
      checked_eq ASSERT_def print_format_def
      V4L2_CAP_VIDEO_CAPTURE_def V4L2_CAP_VIDEO_OUTPUT_def
      V4L2_BUF_TYPE_VIDEO_CAPTURE_def V4L2_BUF_TYPE_VIDEO_OUTPUT_def
      V4L2_MEMORY_MMAP_def V4L2_MEMORY_DMABUF_def s_fmt_request_def)

theorem C10_dequeue_type_witness:
  "(V4L2_CAP_VIDEO_OUTPUT = V4L2_CAP_VIDEO_CAPTURE \<or> V4L2_CAP_VIDEO_OUTPUT = V4L2_CAP_VIDEO_OUTPUT)
   \<and> snd (device_init (out_dev (ex_stream 5)) (config (ex_stream 5)) V4L2_CAP_VIDEO_OUTPUT
         (ex_init_env 4 (ex_pix 640 480) 2))
     = Inr (out_dev (ex_ready 5), (config (ex_stream 5))\<lparr>format := ex_pix 640 480\<rparr>)
   \<and> vb_type (dqbuf_request (out_dev (ex_ready 5))) = 2
   \<and> vb_type (qbuf_request (out_dev (ex_ready 5)) \<lparr>index = 1, dbuf_fd = 11\<rparr>) = 2"
proof -
  have h: "V4L2_CAP_VIDEO_OUTPUT = V4L2_CAP_VIDEO_CAPTURE \<or> V4L2_CAP_VIDEO_OUTPUT = V4L2_CAP_VIDEO_OUTPUT"
    by simp
  from C10_dequeue_type [OF h ex_out_init, of "\<lparr>index = 1, dbuf_fd = 11\<rparr>" 0] ex_out_init
  show ?thesis
    by (auto simp: V4L2_CAP_VIDEO_OUTPUT_def V4L2_CAP_VIDEO_CAPTURE_def
        V4L2_BUF_TYPE_VIDEO_CAPTURE_def V4L2_BUF_TYPE_VIDEO_OUTPUT_def)
qed

subsection \<open>Stream setup\<close>


lemma device_prepare_buffer_index:
  "snd (device_prepare_buffer d b r) = Inr b' \<Longrightarrow> index b' = index b"
  by (auto simp: device_prepare_buffer_def checked_eq split: if_splits prod.splits)

lemma prepare_buffers_index:
  assumes "snd (prepare_buffers din dout ei eo js bs) = Inr bs'" and "k < length bs"
  shows "index (bs' ! k) = (if k \<in> set js then of_nat k else index (bs ! k))"
  using assms
proof (induction js arbitrary: bs)
  case Nil
  then show ?case by simp
next
  case (Cons i js)
  from Cons.prems(1) obtain b1 b2 where
    b1: "snd (device_prepare_buffer din ((bs ! i)\<lparr>index := of_nat i\<rparr>) (ei i)) = Inr b1" and
    b2: "snd (device_prepare_buffer dout b1 (eo i)) = Inr b2" and
    rest: "snd (prepare_buffers din dout ei eo js (bs[i := b2])) = Inr bs'"
    by (auto simp: snd_and_then split: sum.splits)
  have i2: "index b2 = of_nat i"
    using device_prepare_buffer_index [OF b1] device_prepare_buffer_index [OF b2] by simp
  from Cons.IH [OF rest] Cons.prems(2)
  have "index (bs' ! k) = (if k \<in> set js then of_nat k else index (bs[i := b2] ! k))"
    by simp
  then show ?case
    using i2 Cons.prems(2) by (auto simp: nth_list_update)
qed


lemma device_prepare_buffer_fd:
  "snd (device_prepare_buffer d b r) = Inr b' \<Longrightarrow>
   dbuf_fd b' = (if export d then snd r else dbuf_fd b)"
  by (auto simp: device_prepare_buffer_def checked_eq split: if_splits prod.splits)

lemma prepare_buffers_fd:
  assumes "snd (prepare_buffers din dout ei eo js bs) = Inr bs'" and "k < length bs"
    and "distinct js"
  shows "dbuf_fd (bs' ! k) =
           (if k \<in> set js
            then (if export dout then snd (eo k) else if export din then snd (ei k)
                  else dbuf_fd (bs ! k))
            else dbuf_fd (bs ! k))"
  using assms
proof (induction js arbitrary: bs)
  case Nil
  then show ?case by simp
next
  case (Cons i js)
  from Cons.prems(1) obtain b1 b2 where
    b1: "snd (device_prepare_buffer din ((bs ! i)\<lparr>index := of_nat i\<rparr>) (ei i)) = Inr b1" and
    b2: "snd (device_prepare_buffer dout b1 (eo i)) = Inr b2" and
    rest: "snd (prepare_buffers din dout ei eo js (bs[i := b2])) = Inr bs'"
    by (auto simp: snd_and_then split: sum.splits)
  have f2: "dbuf_fd b2 = (if export dout then snd (eo i) else if export din then snd (ei i)
                          else dbuf_fd (bs ! i))"
    using device_prepare_buffer_fd [OF b1] device_prepare_buffer_fd [OF b2] by simp
  from Cons.IH [OF rest] Cons.prems(2,3)
  have "dbuf_fd (bs' ! k) =
          (if k \<in> set js
           then (if export dout then snd (eo k) else if export din then snd (ei k)
                 else dbuf_fd (bs[i := b2] ! k))
           else dbuf_fd (bs[i := b2] ! k))"
    by simp
  then show ?case
    using f2 Cons.prems(2,3) by (cases "k = i") (auto simp: nth_list_update)
qed

lemma stream_init_Inr:
  assumes "snd (stream_init s e) = Inr s'"
  shows "reaches_reqbufs (in_init e) V4L2_CAP_VIDEO_CAPTURE"
    and "reaches_reqbufs (out_init e) V4L2_CAP_VIDEO_OUTPUT"
    and "in_dev s' = opened (in_dev s) V4L2_CAP_VIDEO_CAPTURE (in_init e)"
    and "out_dev s' = opened (out_dev s) V4L2_CAP_VIDEO_OUTPUT (out_init e)"
    and "config s' = (config s)\<lparr>format := g_fmt_final_pix (out_init e),
                                 frame_us := frame_us_of (fps (config s))\<rparr>"
    and "snd (prepare_buffers (in_dev s') (out_dev s') (in_expbuf e) (out_expbuf e)
               [0..<unat (num_buffers (config s))]
               (replicate (unat (num_buffers (config s))) \<lparr>index = 0, dbuf_fd = 0\<rparr>))
         = Inr (buffers s')"
proof -
  from assms obtain r1 where r1:
    "snd (device_init (in_dev s) (config s) V4L2_CAP_VIDEO_CAPTURE (in_init e)) = Inr r1"
    by (auto simp: stream_init_def snd_and_then split: sum.splits)
  note e1 = device_init_Inr_eq [OF r1]
  from assms r1 e1 obtain r2 where r2:
    "snd (device_init (out_dev s) ((config s)\<lparr>format := g_fmt_final_pix (in_init e)\<rparr>)
           V4L2_CAP_VIDEO_OUTPUT (out_init e)) = Inr r2"
    by (auto simp: stream_init_def snd_and_then split: sum.splits)
  note e2 = device_init_Inr_eq [OF r2]
  from device_init_Inr [OF r1] show "reaches_reqbufs (in_init e) V4L2_CAP_VIDEO_CAPTURE"
    by simp
  from device_init_Inr [OF r2] show "reaches_reqbufs (out_init e) V4L2_CAP_VIDEO_OUTPUT"
    by simp
  from assms r1 r2 show "in_dev s' = opened (in_dev s) V4L2_CAP_VIDEO_CAPTURE (in_init e)"
    by (auto simp: stream_init_def snd_and_then e1 e2 Let_def split: sum.splits if_splits)
  from assms r1 r2 show "out_dev s' = opened (out_dev s) V4L2_CAP_VIDEO_OUTPUT (out_init e)"
    by (auto simp: stream_init_def snd_and_then e1 e2 Let_def split: sum.splits if_splits)
  from assms r1 r2 show "config s' = (config s)\<lparr>format := g_fmt_final_pix (out_init e),
                                 frame_us := frame_us_of (fps (config s))\<rparr>"
    by (auto simp: stream_init_def snd_and_then e1 e2 Let_def split: sum.splits if_splits)
  from assms r1 r2 show "snd (prepare_buffers (in_dev s') (out_dev s') (in_expbuf e) (out_expbuf e)
               [0..<unat (num_buffers (config s))]
               (replicate (unat (num_buffers (config s))) \<lparr>index = 0, dbuf_fd = 0\<rparr>))
         = Inr (buffers s')"
    by (auto simp: stream_init_def snd_and_then e1 e2 Let_def split: sum.splits if_splits)
qed

lemma stream_init_trace:
  assumes "snd (stream_init s e) = Inr s'"
  shows "\<exists>rest. fst (stream_init s e) =
           fst (device_init (in_dev s) (config s) V4L2_CAP_VIDEO_CAPTURE (in_init e)) @
           fst (device_init (out_dev s) ((config s)\<lparr>format := g_fmt_final_pix (in_init e)\<rparr>)
                  V4L2_CAP_VIDEO_OUTPUT (out_init e)) @ rest"
proof -
  from assms obtain r1 where r1:
    "snd (device_init (in_dev s) (config s) V4L2_CAP_VIDEO_CAPTURE (in_init e)) = Inr r1"
    by (auto simp: stream_init_def snd_and_then split: sum.splits)
  note e1 = device_init_Inr_eq [OF r1]
  from assms r1 e1 obtain r2 where r2:
    "snd (device_init (out_dev s) ((config s)\<lparr>format := g_fmt_final_pix (in_init e)\<rparr>)
           V4L2_CAP_VIDEO_OUTPUT (out_init e)) = Inr r2"
    by (auto simp: stream_init_def snd_and_then split: sum.splits)
  note e2 = device_init_Inr_eq [OF r2]
  show ?thesis
    using r1 r2 by (simp add: stream_init_def fst_and_then e1 e2 split: sum.splits)
qed

text \<open>
  C8, as the code has it. Each negotiation asks for the format of the shared config with
  the configured fourcc, reads back the format the device settled on and stores it in the
  shared config. So the output device is asked for the input device's actual format with
  the pixel format reset to the configured fourcc, and once both devices are initialised
  the shared config holds the output device's actual format. The two devices have the
  same geometry when the output device returns the geometry it was asked for and the
  input device kept the configured fourcc; nothing in the code checks that they do.
\<close>

theorem C8_negotiated_format:
  assumes "snd (stream_init s e) = Inr s'"
  shows "Ioctl (fd (in_dev s')) (VIDIOC_S_FMT (buf_type (in_dev s')) (s_fmt_request (config s)))
           (s_fmt_ret (in_init e)) \<in> set (fst (stream_init s e))
       \<and> Ioctl (fd (out_dev s'))
           (VIDIOC_S_FMT (buf_type (out_dev s'))
              ((g_fmt_final_pix (in_init e))\<lparr>pixelformat := fourcc (config s)\<rparr>))
           (s_fmt_ret (out_init e)) \<in> set (fst (stream_init s e))
       \<and> format (config s') = g_fmt_final_pix (out_init e)
       \<and> (geometry (g_fmt_final_pix (out_init e))
             = geometry ((g_fmt_final_pix (in_init e))\<lparr>pixelformat := fourcc (config s)\<rparr>)
           \<and> pixelformat (g_fmt_final_pix (in_init e)) = fourcc (config s)
           \<longrightarrow> geometry (g_fmt_final_pix (in_init e)) = geometry (format (config s')))"
proof -
  note i = stream_init_Inr [OF assms]
  from stream_init_trace [OF assms] obtain rest where t:
    "fst (stream_init s e) =
       fst (device_init (in_dev s) (config s) V4L2_CAP_VIDEO_CAPTURE (in_init e)) @
       fst (device_init (out_dev s) ((config s)\<lparr>format := g_fmt_final_pix (in_init e)\<rparr>)
              V4L2_CAP_VIDEO_OUTPUT (out_init e)) @ rest"
    by blast
  have a: "Ioctl (fd (in_dev s')) (VIDIOC_S_FMT (buf_type (in_dev s')) (s_fmt_request (config s)))
           (s_fmt_ret (in_init e)) \<in> set (fst (stream_init s e))"
    by (simp add: t device_init_trace [OF i(1)] i(3) opened_def)
  have b: "Ioctl (fd (out_dev s'))
           (VIDIOC_S_FMT (buf_type (out_dev s'))
              ((g_fmt_final_pix (in_init e))\<lparr>pixelformat := fourcc (config s)\<rparr>))
           (s_fmt_ret (out_init e)) \<in> set (fst (stream_init s e))"
    by (simp add: t device_init_trace [OF i(2)] i(4) opened_def s_fmt_request_def)
  have c: "format (config s') = g_fmt_final_pix (out_init e)"
    by (simp add: i(5))
  show ?thesis
    using a b c by (simp add: geometry_def)
qed

lemma replicate_two: "replicate 2 x = [x, x]"
  by (simp add: numeral_2_eq_2)

lemma ex_stream_init:
  "stream_init (ex_stream f) (ex_stream_env p) =
     ([Open ''/dev/video0'' 3,
       Ioctl 3 VIDIOC_QUERYCAP 0,
       Ioctl 3 (VIDIOC_G_FMT 1) 0,
       Printf ''G_FMT(start)'' [1920, 1080, 0x56595559],
       Ioctl 3 (VIDIOC_S_FMT 1 \<lparr>width = 640, height = 480, pixelformat = 0x56595559,
                  pix_field = 0, bytesperline = 0, sizeimage = 0, colorspace = 0\<rparr>) 0,
       Ioctl 3 (VIDIOC_G_FMT 1) 0,
       Printf ''G_FMT(final)'' [640, 480, 0x56595559],
       Ioctl 3 (VIDIOC_REQBUFS \<lparr>rq_count = 2, rq_type = 1, rq_memory = 4\<rparr>) 0,
       Open ''/dev/video1'' 4,
       Ioctl 4 VIDIOC_QUERYCAP 0,
       Ioctl 4 (VIDIOC_G_FMT 2) 0,
       Printf ''G_FMT(start)'' [1920, 1080, 0x56595559],
       Ioctl 4 (VIDIOC_S_FMT 2 (ex_pix 640 480)) 0,
       Ioctl 4 (VIDIOC_G_FMT 2) 0,
       Printf ''G_FMT(final)'' [width p, height p, pixelformat p],
       Ioctl 4 (VIDIOC_REQBUFS \<lparr>rq_count = 2, rq_type = 2, rq_memory = 1\<rparr>) 0,
       Ioctl 4 (VIDIOC_EXPBUF \<lparr>eb_type = 2, eb_index = 0, eb_plane = 0, eb_flags = 0, eb_fd = 0\<rparr>) 0,
       Ioctl 4 (VIDIOC_EXPBUF \<lparr>eb_type = 2, eb_index = 0, eb_plane = 0, eb_flags = 0, eb_fd = 0\<rparr>) 0,
       Ioctl 3 (VIDIOC_QBUF \<lparr>vb_index = 0, vb_type = 1, vb_memory = 4, vb_m_fd = 10\<rparr>) 0,
       Ioctl 3 (VIDIOC_QBUF \<lparr>vb_index = 1, vb_type = 1, vb_memory = 4, vb_m_fd = 11\<rparr>) 0],
      Inr ((ex_ready f)\<lparr>config := (config (ex_ready f))\<lparr>format := p\<rparr>\<rparr>))"
  by (simp add: stream_init_def device_init_def ex_stream_def ex_stream_env_def ex_init_env_def
      ex_ready_def ex_pix_def Let_def s_fmt_request_def
      V4L2_CAP_VIDEO_CAPTURE_def V4L2_CAP_VIDEO_OUTPUT_def
      V4L2_BUF_TYPE_VIDEO_CAPTURE_def V4L2_BUF_TYPE_VIDEO_OUTPUT_def
      V4L2_MEMORY_MMAP_def V4L2_MEMORY_DMABUF_def
      upt_rec [of 0] upt_rec [of 1] upt_rec [of 2] upt_rec [of "Suc 0"]
      device_prepare_buffer_def expbuf_request_def device_queue_buffer_def qbuf_request_def
      replicate_two checked_eq ASSERT_def print_format_def)

lemma ex_stream_init_ready:
  "snd (stream_init (ex_stream 5) (ex_stream_env (ex_pix 640 480))) = Inr (ex_ready 5)"
  by (simp add: ex_stream_init) (simp add: ex_ready_def)

text \<open>
  The stream of the example when neither device coerces the request: the output device
  is asked for 640x480 YUYV, the shared config ends with what it settled on, and both
  devices have the geometry 640x480 YUYV.
\<close>

theorem C8_negotiated_format_witness:
  "snd (stream_init (ex_stream 5) (ex_stream_env (ex_pix 640 480))) = Inr (ex_ready 5)
   \<and> Ioctl 4 (VIDIOC_S_FMT 2 (ex_pix 640 480)) 0
       \<in> set (fst (stream_init (ex_stream 5) (ex_stream_env (ex_pix 640 480))))
   \<and> format (config (ex_ready 5)) = ex_pix 640 480
   \<and> geometry (g_fmt_final_pix (out_init (ex_stream_env (ex_pix 640 480))))
       = geometry ((g_fmt_final_pix (in_init (ex_stream_env (ex_pix 640 480))))
                     \<lparr>pixelformat := fourcc (config (ex_stream 5))\<rparr>)
   \<and> pixelformat (g_fmt_final_pix (in_init (ex_stream_env (ex_pix 640 480))))
       = fourcc (config (ex_stream 5))
   \<and> geometry (g_fmt_final_pix (in_init (ex_stream_env (ex_pix 640 480))))
       = geometry (format (config (ex_ready 5)))
   \<and> geometry (format (config (ex_ready 5))) = (640, 480, 0x56595559)"
proof -
  note h = ex_stream_init_ready
  have o: "g_fmt_final_pix (out_init (ex_stream_env (ex_pix 640 480))) = ex_pix 640 480"
    and i: "(g_fmt_final_pix (in_init (ex_stream_env (ex_pix 640 480))))
              \<lparr>pixelformat := fourcc (config (ex_stream 5))\<rparr> = ex_pix 640 480"
    and r: "s_fmt_ret (out_init (ex_stream_env (ex_pix 640 480))) = 0"
    and d: "fd (out_dev (ex_ready 5)) = 4" "buf_type (out_dev (ex_ready 5)) = 2"
    by (simp_all add: ex_stream_env_def ex_init_env_def ex_stream_def ex_pix_def ex_ready_def)
  have g1: "geometry (g_fmt_final_pix (out_init (ex_stream_env (ex_pix 640 480))))
       = geometry ((g_fmt_final_pix (in_init (ex_stream_env (ex_pix 640 480))))
                     \<lparr>pixelformat := fourcc (config (ex_stream 5))\<rparr>)"
    by (simp only: o i)
  have g2: "pixelformat (g_fmt_final_pix (in_init (ex_stream_env (ex_pix 640 480))))
       = fourcc (config (ex_stream 5))"
    by (simp add: ex_stream_env_def ex_init_env_def ex_stream_def ex_pix_def)
  note t = C8_negotiated_format [OF h]
  from t have a: "Ioctl 4 (VIDIOC_S_FMT 2 (ex_pix 640 480)) 0
          \<in> set (fst (stream_init (ex_stream 5) (ex_stream_env (ex_pix 640 480))))
        \<and> format (config (ex_ready 5)) = ex_pix 640 480"
    unfolding o i r by (simp add: d)
  from t g1 g2 have b: "geometry (g_fmt_final_pix (in_init (ex_stream_env (ex_pix 640 480))))
       = geometry (format (config (ex_ready 5)))"
    by blast
  have c: "geometry (format (config (ex_ready 5))) = (640, 480, 0x56595559)"
    by (simp add: geometry_def ex_ready_def ex_pix_def)
  from h a g1 g2 b c show ?thesis
    by blast
qed

text \<open>
  C8 as stated fails: both devices are initialised, the input device at 640x480 and the
  output device, which coerced the request, at 320x240.
\<close>

theorem C8_same_geometry_counterexample:
  "snd (stream_init (ex_stream 5) (ex_stream_env (ex_pix 320 240)))
     = Inr ((ex_ready 5)\<lparr>config := (config (ex_ready 5))\<lparr>format := ex_pix 320 240\<rparr>\<rparr>)
   \<and> geometry (g_fmt_final_pix (in_init (ex_stream_env (ex_pix 320 240))))
       = (640, 480, 0x56595559)
   \<and> geometry (g_fmt_final_pix (out_init (ex_stream_env (ex_pix 320 240))))
       = (320, 240, 0x56595559)"
proof (intro conjI)
  show "snd (stream_init (ex_stream 5) (ex_stream_env (ex_pix 320 240)))
     = Inr ((ex_ready 5)\<lparr>config := (config (ex_ready 5))\<lparr>format := ex_pix 320 240\<rparr>\<rparr>)"
    by (simp add: ex_stream_init)
  show "geometry (g_fmt_final_pix (in_init (ex_stream_env (ex_pix 320 240))))
       = (640, 480, 0x56595559)"
    by (simp add: geometry_def ex_stream_env_def ex_init_env_def ex_pix_def)
  show "geometry (g_fmt_final_pix (out_init (ex_stream_env (ex_pix 320 240))))
       = (320, 240, 0x56595559)"
    by (simp add: geometry_def ex_stream_env_def ex_init_env_def ex_pix_def)
qed

text \<open>
  Every export request of \<open>stream_init\<close> names buffer 0, in every run: the request is
  zeroed and only its type is set.
\<close>

lemma exported_indices_append:
  "exported_indices (a @ b) = exported_indices a @ exported_indices b"
  by (induction a rule: exported_indices.induct) simp_all

lemma exported_indices_device_init: "exported_indices (fst (device_init d c ty e)) = []"
  by (simp add: device_init_def Let_def fst_and_then checked_eq ASSERT_def print_format_def
      split: sum.splits)

lemma exported_indices_prepare_buffer:
  "set (exported_indices (fst (device_prepare_buffer d b r))) \<subseteq> {0}"
  by (simp add: device_prepare_buffer_def expbuf_request_def checked_eq split: prod.splits)

lemma exported_indices_prepare_buffers:
  "set (exported_indices (fst (prepare_buffers din dout ei eo js bs))) \<subseteq> {0}"
proof (induction js arbitrary: bs)
  case Nil
  then show ?case by simp
next
  case (Cons i js)
  note p = exported_indices_prepare_buffer
  show ?case
    using Cons.IH p [of din] p [of dout]
    by (auto simp: fst_and_then exported_indices_append split: sum.splits)
qed

lemma exported_indices_queue_buffers:
  "exported_indices (fst (queue_buffers d q js bs)) = []"
  by (induction js)
    (simp_all add: fst_and_then exported_indices_append device_queue_buffer_def checked_eq
       split: sum.splits)

lemma exported_indices_stream_init:
  "set (exported_indices (fst (stream_init s e))) \<subseteq> {0}"
  using exported_indices_prepare_buffers
  by (auto simp: stream_init_def fst_and_then exported_indices_append Let_def
      exported_indices_device_init exported_indices_queue_buffers
      split: sum.splits prod.splits if_splits)

text \<open>
  The pool's own bookkeeping: entry \<open>k\<close> carries index \<open>k\<close> and the descriptor that the
  export call of pass \<open>k\<close> returned (that of the output device if both devices export).
  \<open>stream_on\<close> reads the pool and never writes it.
\<close>

lemma stream_init_handles:
  assumes "snd (stream_init s0 e0) = Inr s" and "k < unat (num_buffers (config s0))"
  shows "index (buffers s ! k) = of_nat k"
    and "dbuf_fd (buffers s ! k) =
           (if export (out_dev s0) then snd (out_expbuf e0 k)
            else if export (in_dev s0) then snd (in_expbuf e0 k) else 0)"
proof -
  note i = stream_init_Inr [OF assms(1)]
  from prepare_buffers_index [OF i(6), of k] assms(2)
  show "index (buffers s ! k) = of_nat k" by simp
  from prepare_buffers_fd [OF i(6), of k] assms(2)
  show "dbuf_fd (buffers s ! k) =
           (if export (out_dev s0) then snd (out_expbuf e0 k)
            else if export (in_dev s0) then snd (in_expbuf e0 k) else 0)"
    by (simp add: i(3,4) opened_def)
qed

text \<open>
  C3. With two buffers and the output device exporting, \<open>stream_init\<close> succeeds, the pool
  entries carry the indices 0 and 1 and the handles 10 and 11, and both export requests
  name buffer 0 of the exporting device: no handle is ever exported for index 1.
\<close>

theorem C3_export_request_index:
  "snd (stream_init (ex_stream 5) (ex_stream_env (ex_pix 640 480))) = Inr (ex_ready 5)
   \<and> map index (buffers (ex_ready 5)) = [0, 1]
   \<and> map dbuf_fd (buffers (ex_ready 5)) = [10, 11]
   \<and> exported_indices (fst (stream_init (ex_stream 5) (ex_stream_env (ex_pix 640 480)))) = [0, 0]"
  by (simp add: ex_stream_init) (simp add: ex_ready_def)

subsection \<open>The relay loop\<close>

lemma fst_crash: "fst (crash m) = fst m"
  by (cases m) (simp add: crash_def split: sum.splits)

lemma snd_crash:
  "snd (crash m) = (case snd m of Inl f \<Rightarrow> Inl (Crashed f) | Inr a \<Rightarrow> Inr a)"
  by (cases m) (simp add: crash_def split: sum.splits)

lemma queue_eq:
  "device_queue_buffer d b ret =
     (if ret \<noteq> 0 then ([enqueue_call d b ret, Fprintf_stderr (QbufFailed (index b)), Abort],
                          Inl (QbufFailed (index b)))
      else ([enqueue_call d b ret], Inr ()))"
  by (simp add: device_queue_buffer_def checked_eq)

lemma dequeue_eq:
  "device_dequeue_buffer d bs mem r =
     (if fst r \<noteq> 0 then ([dequeue_call d r, Fprintf_stderr DqbufFailed, Abort], Inl DqbufFailed)
      else ([dequeue_call d r], Inr (pool_entry bs mem (snd r))))"
  by (cases r) (simp add: device_dequeue_buffer_def checked_eq)

lemma pace_eq:
  "pace c prev e =
     (if 0 < frame_us c then
        (if usec_of (now_before e) - prev < frame_us c then
           (if usleep_cancelled e
            then ([Gettimeofday (now_before e),
                   Usleep (frame_us c - (usec_of (now_before e) - prev))], Inl Cancelled)
            else ([Gettimeofday (now_before e),
                   Usleep (frame_us c - (usec_of (now_before e) - prev)),
                   Gettimeofday (now_after e)], Inr (usec_of (now_after e))))
         else ([Gettimeofday (now_before e), Gettimeofday (now_after e)],
               Inr (usec_of (now_after e))))
      else ([], Inr prev))"
  by (simp add: pace_def Let_def)

lemma snd_pace:
  "\<not> usleep_cancelled e \<Longrightarrow>
   snd (pace c prev e) = Inr (if 0 < frame_us c then usec_of (now_after e) else prev)"
  by (simp add: pace_eq)

lemma input_ready_ok:
  "input_calls_ok p \<Longrightarrow>
   input_ready s prev p =
     (fst (pace (config s) prev p) @ hand_off s p,
      Inr (if 0 < frame_us (config s) then usec_of (now_after p) else prev))"
  by (simp add: input_ready_def input_calls_ok_def and_then_def crash_def queue_eq dequeue_eq
      pace_eq)

lemma output_ready_ok:
  "output_calls_ok p \<Longrightarrow> output_ready s p = (hand_back s p, Inr ())"
  by (simp add: output_ready_def output_calls_ok_def and_then_def crash_def queue_eq dequeue_eq)

lemma relay_iter_timeout:
  "poll_res p = PollReturn res r0 r1 \<Longrightarrow> res \<le> 0 \<Longrightarrow>
   relay_iter s q p = ([poll_call s], Inl PollDone)"
  by (simp add: relay_iter_def)

lemma relay_iter_poll_cancelled:
  "poll_res p = PollCancelled \<Longrightarrow> relay_iter s q p = ([poll_call s], Inl Cancelled)"
  by (simp add: relay_iter_def)

lemma relay_iter_polled:
  "polled p \<Longrightarrow>
   relay_iter s q p =
     and_then ([poll_call s], Inr ()) (\<lambda>_.
     and_then (if input_polled p then input_ready s q p else ([], Inr q)) (\<lambda>q'.
     and_then (if output_polled p then output_ready s p else ([], Inr ())) (\<lambda>_.
     ([], Inr q'))))"
  by (auto simp: relay_iter_def polled_def input_polled_def output_polled_def
      split: poll_result.splits)

lemma relay_iter_ok:
  "pass_ok p \<Longrightarrow>
   relay_iter s q p =
     (poll_call s # (if input_polled p then fst (pace (config s) q p) @ hand_off s p else [])
        @ (if output_polled p then hand_back s p else []),
      Inr (if input_polled p \<and> 0 < frame_us (config s) then usec_of (now_after p) else q))"
  by (simp add: pass_ok_def relay_iter_polled input_ready_ok output_ready_ok)

lemma relay_loop_append:
  "relay_loop s prev (a @ b) = and_then (relay_loop s prev a) (\<lambda>q. relay_loop s q b)"
  by (induction a arbitrary: prev) (simp_all add: and_then_assoc)

lemma relay_loop_ok:
  "list_all pass_ok ps \<Longrightarrow> \<exists>q. snd (relay_loop s prev ps) = Inr q"
proof (induction ps arbitrary: prev)
  case Nil
  then show ?case by simp
next
  case (Cons p ps)
  then show ?case
    by (simp add: relay_iter_ok)
qed

lemma in_pass_iters:
  "in_pass e ps p \<Longrightarrow> iters e = ps @ p # drop (Suc (length ps)) (iters e)"
  using append_take_drop_id [of "Suc (length ps)" "iters e"] by (simp add: in_pass_def)

lemma stream_on_started:
  "0 \<le> on_in_ret e \<Longrightarrow> 0 \<le> on_out_ret e \<Longrightarrow>
   stream_on s e =
     (case relay_loop s 0 (iters e) of
        (t', Inr prev) \<Rightarrow> (turned_on s e @ t', Running)
      | (t', Inl (Crashed f)) \<Rightarrow> (turned_on s e @ t', Aborted f)
      | (t', Inl x) \<Rightarrow>
          (turned_on s e @ t' @ fst (stream_off s (off_in_ret e, off_out_ret e)),
           case snd (stream_off s (off_in_ret e, off_out_ret e)) of
             Inl f \<Rightarrow> Aborted f
           | Inr u \<Rightarrow> if x = PollDone then Returned else WorkerCancelled))"
proof -
  assume on: "0 \<le> on_in_ret e" "0 \<le> on_out_ret e"
  obtain t x where l: "relay_loop s 0 (iters e) = (t, x)"
    by (cases "relay_loop s 0 (iters e)")
  obtain t' y where o: "stream_off s (off_in_ret e, off_out_ret e) = (t', y)"
    by (cases "stream_off s (off_in_ret e, off_out_ret e)")
  show ?thesis
    using on
    by (simp add: stream_on_def device_on_def checked_eq turned_on_def l o
        split: sum.splits stop.splits)
qed

lemma relay_loop_leaves:
  assumes "in_pass e ps p" and "snd (relay_loop s 0 ps) = Inr q"
    and "relay_iter s q p = (tp, Inl x)"
  shows "relay_loop s 0 (iters e) = (fst (relay_loop s 0 ps) @ tp, Inl x)"
proof -
  obtain t where l: "relay_loop s 0 ps = (t, Inr q)"
    using assms(2) by (cases "relay_loop s 0 ps") simp
  have "relay_loop s 0 (ps @ p # drop (Suc (length ps)) (iters e)) = (t @ tp, Inl x)"
    by (simp add: relay_loop_append l assms(3))
  then show ?thesis
    using in_pass_iters [OF assms(1)] l by simp
qed

lemma stream_on_leaves:
  assumes "in_pass e ps p" and "snd (relay_loop s 0 ps) = Inr q"
    and "relay_iter s q p = (tp, Inl x)"
  shows "stream_on s e =
     (case x of
        Crashed f \<Rightarrow> (turned_on s e @ fst (relay_loop s 0 ps) @ tp, Aborted f)
      | PollDone \<Rightarrow>
          (turned_on s e @ fst (relay_loop s 0 ps) @ tp
             @ fst (stream_off s (off_in_ret e, off_out_ret e)),
           case snd (stream_off s (off_in_ret e, off_out_ret e)) of
             Inl f \<Rightarrow> Aborted f | Inr u \<Rightarrow> Returned)
      | Cancelled \<Rightarrow>
          (turned_on s e @ fst (relay_loop s 0 ps) @ tp
             @ fst (stream_off s (off_in_ret e, off_out_ret e)),
           case snd (stream_off s (off_in_ret e, off_out_ret e)) of
             Inl f \<Rightarrow> Aborted f | Inr u \<Rightarrow> WorkerCancelled))"
proof -
  from assms(1) have on: "0 \<le> on_in_ret e" "0 \<le> on_out_ret e"
    by (simp_all add: in_pass_def)
  show ?thesis
    unfolding stream_on_started [OF on] relay_loop_leaves [OF assms]
    by (simp split: stop.splits sum.splits)
qed

lemma stream_off_eq:
  "stream_off s (a, b) =
     (Ioctl (fd (in_dev s)) (VIDIOC_STREAMOFF (buf_type (in_dev s))) a
        # (if a < 0 then [Fprintf_stderr StreamoffFailed, Abort]
           else Ioctl (fd (out_dev s)) (VIDIOC_STREAMOFF (buf_type (out_dev s))) b
                  # (if b < 0 then [Fprintf_stderr StreamoffFailed, Abort] else [])),
      if a < 0 \<or> b < 0 then Inl StreamoffFailed else Inr ())"
  by (simp add: stream_off_def device_off_def checked_eq)


lemma in_pass_prev:
  "in_pass e ps p \<Longrightarrow> snd (relay_loop s 0 ps) = Inr (prev_after s ps)"
proof -
  assume "in_pass e ps p"
  then have "list_all pass_ok ps"
    by (simp add: in_pass_def)
  from relay_loop_ok [OF this, of s 0] obtain q where q: "snd (relay_loop s 0 ps) = Inr q"
    by blast
  then show ?thesis
    by (simp add: prev_after_def)
qed

lemma input_ready_dequeue_fails:
  "\<not> usleep_cancelled p \<Longrightarrow> fst (in_dqbuf p) \<noteq> 0 \<Longrightarrow>
   input_ready s q p =
     (fst (pace (config s) q p)
        @ [dequeue_call (in_dev s) (in_dqbuf p), Fprintf_stderr DqbufFailed, Abort],
      Inl (Crashed DqbufFailed))"
  by (simp add: input_ready_def and_then_def crash_def dequeue_eq pace_eq)

lemma input_ready_enqueue_fails:
  "\<not> usleep_cancelled p \<Longrightarrow> fst (in_dqbuf p) = 0 \<Longrightarrow> out_qbuf p \<noteq> 0 \<Longrightarrow>
   input_ready s q p =
     (fst (pace (config s) q p) @ hand_off s p
        @ [Fprintf_stderr (QbufFailed (index (in_buffer s p))), Abort],
      Inl (Crashed (QbufFailed (index (in_buffer s p)))))"
  by (simp add: input_ready_def and_then_def crash_def dequeue_eq queue_eq pace_eq)

lemma output_ready_dequeue_fails:
  "fst (out_dqbuf p) \<noteq> 0 \<Longrightarrow>
   output_ready s p =
     ([dequeue_call (out_dev s) (out_dqbuf p), Fprintf_stderr DqbufFailed, Abort],
      Inl (Crashed DqbufFailed))"
  by (simp add: output_ready_def and_then_def crash_def dequeue_eq)

lemma output_ready_enqueue_fails:
  "fst (out_dqbuf p) = 0 \<Longrightarrow> in_qbuf p \<noteq> 0 \<Longrightarrow>
   output_ready s p =
     (hand_back s p @ [Fprintf_stderr (QbufFailed (index (out_buffer s p))), Abort],
      Inl (Crashed (QbufFailed (index (out_buffer s p)))))"
  by (simp add: output_ready_def and_then_def crash_def dequeue_eq queue_eq)

lemma input_polled_polled: "input_polled p \<Longrightarrow> polled p"
  by (simp add: input_polled_def polled_def split: poll_result.splits)

lemma output_polled_polled: "output_polled p \<Longrightarrow> polled p"
  by (simp add: output_polled_def polled_def split: poll_result.splits)

lemma relay_iter_in_dequeue_fails:
  "input_reached p \<Longrightarrow> fst (in_dqbuf p) \<noteq> 0 \<Longrightarrow>
   relay_iter s q p =
     (poll_call s # fst (pace (config s) q p)
        @ [dequeue_call (in_dev s) (in_dqbuf p), Fprintf_stderr DqbufFailed, Abort],
      Inl (Crashed DqbufFailed))"
  by (simp add: input_reached_def relay_iter_polled input_polled_polled
      input_ready_dequeue_fails)

lemma relay_iter_out_enqueue_fails:
  "input_reached p \<Longrightarrow> fst (in_dqbuf p) = 0 \<Longrightarrow> out_qbuf p \<noteq> 0 \<Longrightarrow>
   relay_iter s q p =
     (input_part s q p @ [Fprintf_stderr (QbufFailed (index (in_buffer s p))), Abort],
      Inl (Crashed (QbufFailed (index (in_buffer s p)))))"
  by (simp add: input_reached_def relay_iter_polled input_polled_polled
      input_ready_enqueue_fails input_part_def)

lemma relay_iter_out_dequeue_fails:
  "output_reached p \<Longrightarrow> fst (out_dqbuf p) \<noteq> 0 \<Longrightarrow>
   relay_iter s q p =
     (input_part s q p
        @ [dequeue_call (out_dev s) (out_dqbuf p), Fprintf_stderr DqbufFailed, Abort],
      Inl (Crashed DqbufFailed))"
  by (simp add: output_reached_def relay_iter_polled output_polled_polled
      output_ready_dequeue_fails input_ready_ok input_part_def)

lemma relay_iter_in_enqueue_fails:
  "output_reached p \<Longrightarrow> fst (out_dqbuf p) = 0 \<Longrightarrow> in_qbuf p \<noteq> 0 \<Longrightarrow>
   relay_iter s q p =
     (input_part s q p @ hand_back s p
        @ [Fprintf_stderr (QbufFailed (index (out_buffer s p))), Abort],
      Inl (Crashed (QbufFailed (index (out_buffer s p)))))"
  by (simp add: output_reached_def relay_iter_polled output_polled_polled
      output_ready_enqueue_fails input_ready_ok input_part_def)

lemma relay_iter_not_polled:
  "\<not> polled p \<Longrightarrow>
   relay_iter s q p =
     ([poll_call s], Inl (if poll_res p = PollCancelled then Cancelled else PollDone))"
  by (simp add: relay_iter_def polled_def split: poll_result.splits)

lemma relay_iter_cancelled_in_sleep:
  "cancelled_in_sleep s q p \<Longrightarrow>
   relay_iter s q p =
     ([poll_call s, Gettimeofday (now_before p),
       Usleep (frame_us (config s) - (usec_of (now_before p) - q))], Inl Cancelled)"
  by (simp add: cancelled_in_sleep_def relay_iter_polled input_polled_polled
      input_ready_def pace_eq)

subsection \<open>Leaving the loop\<close>

lemma stop_calls_append: "stop_calls (a @ b) = stop_calls a @ stop_calls b"
  by (induction a rule: stop_calls.induct) simp_all

lemma stop_calls_pace: "stop_calls (fst (pace c prev e)) = []"
  by (simp add: pace_eq)

lemma stop_calls_input_ready: "stop_calls (fst (input_ready s prev e)) = []"
  by (simp add: input_ready_def fst_and_then stop_calls_append stop_calls_pace fst_crash
      snd_crash dequeue_eq queue_eq split: sum.splits)

lemma stop_calls_output_ready: "stop_calls (fst (output_ready s e)) = []"
  by (simp add: output_ready_def fst_and_then stop_calls_append fst_crash snd_crash
      dequeue_eq queue_eq split: sum.splits)

lemma stop_calls_relay_iter: "stop_calls (fst (relay_iter s prev e)) = []"
  by (simp add: relay_iter_def fst_and_then stop_calls_append stop_calls_input_ready
      stop_calls_output_ready split: sum.splits poll_result.splits)

lemma stop_calls_relay_loop: "stop_calls (fst (relay_loop s prev es)) = []"
proof (induction es arbitrary: prev)
  case Nil
  then show ?case by simp
next
  case (Cons e es)
  then show ?case
    by (simp add: fst_and_then stop_calls_append stop_calls_relay_iter split: sum.splits)
qed

lemma stop_calls_turned_on: "stop_calls (turned_on s e) = []"
  by (simp add: turned_on_def)

lemma stop_calls_stream_off:
  "stop_calls (fst (stream_off s (a, b))) =
     (fd (in_dev s), buf_type (in_dev s))
       # (if a < 0 then [] else [(fd (out_dev s), buf_type (out_dev s))])"
  by (simp add: stream_off_eq)

lemma stream_on_in_fails:
  "on_in_ret e < 0 \<Longrightarrow>
   stream_on s e =
     ([Ioctl (fd (in_dev s)) (VIDIOC_STREAMON (buf_type (in_dev s))) (on_in_ret e),
       Fprintf_stderr StreamonFailed, Abort], Aborted StreamonFailed)"
  by (simp add: stream_on_def device_on_def checked_eq)

lemma stream_on_out_fails:
  "0 \<le> on_in_ret e \<Longrightarrow> on_out_ret e < 0 \<Longrightarrow>
   stream_on s e =
     (turned_on s e @ [Fprintf_stderr StreamonFailed, Abort], Aborted StreamonFailed)"
  by (simp add: stream_on_def device_on_def checked_eq turned_on_def)

lemma reports_append: "reports (a @ b) = reports a @ reports b"
  by (induction a rule: reports.induct) simp_all

lemma reports_pace: "reports (fst (pace c prev e)) = []"
  by (simp add: pace_eq)

lemma reports_relay_loop_ok:
  "list_all pass_ok ps \<Longrightarrow> reports (fst (relay_loop s prev ps)) = []"
proof (induction ps arbitrary: prev)
  case Nil
  then show ?case by simp
next
  case (Cons p ps)
  then show ?case
    by (simp add: relay_iter_ok reports_append reports_pace)
qed

lemma reports_turned_on: "reports (turned_on s e) = []"
  by (simp add: turned_on_def)

text \<open>
  C6, as the code has it. A \<open>poll\<close> that returns 0 after its 5000 ms (or a negative
  value) ends the \<open>while\<close> loop, whatever pass it happens in: after that \<open>poll\<close> the
  worker makes no call but those of the cleanup handler \<open>stream_off\<close>, and the passes
  that would have followed are not run. The handler stops the input device and, if that
  call succeeds, the output device; the worker returns if both calls succeed, and a
  failed one is reported by \<open>ASSERT\<close> and aborts the process. The stall itself is not
  reported: but for the message of a failed stop call, the run writes nothing.
\<close>

theorem C6_timeout_ends_relay:
  assumes "in_pass env ps p"
    and "poll_res p = PollReturn res r0 r1" and "res \<le> 0"
  shows "stream_on s env =
           (turned_on s env @ fst (relay_loop s 0 ps) @ poll_call s
              # Ioctl (fd (in_dev s)) (VIDIOC_STREAMOFF (buf_type (in_dev s))) (off_in_ret env)
              # (if off_in_ret env < 0 then [Fprintf_stderr StreamoffFailed, Abort]
                 else Ioctl (fd (out_dev s)) (VIDIOC_STREAMOFF (buf_type (out_dev s)))
                        (off_out_ret env)
                      # (if off_out_ret env < 0 then [Fprintf_stderr StreamoffFailed, Abort]
                         else [])),
            if off_in_ret env < 0 \<or> off_out_ret env < 0 then Aborted StreamoffFailed
            else Returned)
       \<and> reports (fst (stream_on s env)) =
           (if off_in_ret env < 0 \<or> off_out_ret env < 0 then [Fprintf_stderr StreamoffFailed]
            else [])"
proof -
  have i: "relay_iter s (prev_after s ps) p = ([poll_call s], Inl PollDone)"
    by (rule relay_iter_timeout [OF assms(2,3)])
  note l = stream_on_leaves [OF assms(1) in_pass_prev [OF assms(1)] i]
  have a: "stream_on s env =
           (turned_on s env @ fst (relay_loop s 0 ps) @ poll_call s
              # Ioctl (fd (in_dev s)) (VIDIOC_STREAMOFF (buf_type (in_dev s))) (off_in_ret env)
              # (if off_in_ret env < 0 then [Fprintf_stderr StreamoffFailed, Abort]
                 else Ioctl (fd (out_dev s)) (VIDIOC_STREAMOFF (buf_type (out_dev s)))
                        (off_out_ret env)
                      # (if off_out_ret env < 0 then [Fprintf_stderr StreamoffFailed, Abort]
                         else [])),
            if off_in_ret env < 0 \<or> off_out_ret env < 0 then Aborted StreamoffFailed
            else Returned)"
    unfolding l by (simp add: stream_off_eq)
  from assms(1) have "list_all pass_ok ps"
    by (simp add: in_pass_def)
  then have r: "reports (fst (relay_loop s 0 ps)) = []"
    by (rule reports_relay_loop_ok)
  have b: "reports (fst (stream_on s env)) =
           (if off_in_ret env < 0 \<or> off_out_ret env < 0 then [Fprintf_stderr StreamoffFailed]
            else [])"
    unfolding a by (simp add: reports_append reports_turned_on r)
  from a b show ?thesis
    by (rule conjI)
qed

text \<open>
  C6 as stated fails: the first \<open>poll\<close> times out; the worker stops both devices and
  returns, although the input would have been ready at the next \<open>poll\<close>. The run writes
  nothing and has no further \<open>poll\<close>.
\<close>

theorem C6_stall_counterexample:
  "stream_on (ex_ready 5) (ex_on_env [ex_pass 0 0 0 0, ex_pass 1 POLLIN 0 0]) =
     ([Ioctl 3 (VIDIOC_STREAMON 1) 0, Ioctl 4 (VIDIOC_STREAMON 2) 0, Poll 3 4 5000,
       Ioctl 3 (VIDIOC_STREAMOFF 1) 0, Ioctl 4 (VIDIOC_STREAMOFF 2) 0],
      Returned)
   \<and> reports (fst (stream_on (ex_ready 5) (ex_on_env [ex_pass 0 0 0 0, ex_pass 1 POLLIN 0 0])))
       = []"
  by code_simp

lemma ex_hand_off_pass:
  "fst (relay_loop (ex_ready 5) 0 [ex_pass 1 POLLIN 0 1]) =
     [Poll 3 4 5000, Gettimeofday \<lparr>tv_sec = 1, tv_usec = 0\<rparr>,
      Gettimeofday \<lparr>tv_sec = 2, tv_usec = 0\<rparr>,
      Ioctl 3 (VIDIOC_DQBUF \<lparr>vb_index = 0, vb_type = 1, vb_memory = 4, vb_m_fd = 0\<rparr> 1) 0,
      Ioctl 4 (VIDIOC_QBUF \<lparr>vb_index = 1, vb_type = 2, vb_memory = 1, vb_m_fd = 11\<rparr>) 0]"
  by code_simp

theorem C6_timeout_ends_relay_witness:
  "in_pass (ex_on_env [ex_pass 1 POLLIN 0 1, ex_pass 0 0 0 0, ex_pass 1 POLLIN 0 0])
     [ex_pass 1 POLLIN 0 1] (ex_pass 0 0 0 0)
   \<and> poll_res (ex_pass 0 0 0 0) = PollReturn 0 0 0 \<and> (0::int) \<le> 0
   \<and> stream_on (ex_ready 5)
        (ex_on_env [ex_pass 1 POLLIN 0 1, ex_pass 0 0 0 0, ex_pass 1 POLLIN 0 0]) =
       ([Ioctl 3 (VIDIOC_STREAMON 1) 0, Ioctl 4 (VIDIOC_STREAMON 2) 0,
         Poll 3 4 5000, Gettimeofday \<lparr>tv_sec = 1, tv_usec = 0\<rparr>,
         Gettimeofday \<lparr>tv_sec = 2, tv_usec = 0\<rparr>,
         Ioctl 3 (VIDIOC_DQBUF \<lparr>vb_index = 0, vb_type = 1, vb_memory = 4, vb_m_fd = 0\<rparr> 1) 0,
         Ioctl 4 (VIDIOC_QBUF \<lparr>vb_index = 1, vb_type = 2, vb_memory = 1, vb_m_fd = 11\<rparr>) 0,
         Poll 3 4 5000, Ioctl 3 (VIDIOC_STREAMOFF 1) 0, Ioctl 4 (VIDIOC_STREAMOFF 2) 0],
        Returned)
   \<and> reports (fst (stream_on (ex_ready 5)
        (ex_on_env [ex_pass 1 POLLIN 0 1, ex_pass 0 0 0 0, ex_pass 1 POLLIN 0 0]))) = []"
proof -
  let ?e = "ex_on_env [ex_pass 1 POLLIN 0 1, ex_pass 0 0 0 0, ex_pass 1 POLLIN 0 0]"
  have h1: "in_pass ?e [ex_pass 1 POLLIN 0 1] (ex_pass 0 0 0 0)"
    by code_simp
  have h2: "poll_res (ex_pass 0 0 0 0) = PollReturn 0 0 0"
    by (simp add: ex_pass_def)
  have h3: "(0::int) \<le> 0"
    by simp
  have o: "off_in_ret ?e = 0" "off_out_ret ?e = 0" "on_in_ret ?e = 0" "on_out_ret ?e = 0"
    by (simp_all add: ex_on_env_def)
  have d: "fd (in_dev (ex_ready 5)) = 3" "fd (out_dev (ex_ready 5)) = 4"
    "buf_type (in_dev (ex_ready 5)) = 1" "buf_type (out_dev (ex_ready 5)) = 2"
    by (simp_all add: ex_ready_def)
  from C6_timeout_ends_relay [OF h1 h2 h3, of "ex_ready 5"]
  have "stream_on (ex_ready 5) ?e =
       ([Ioctl 3 (VIDIOC_STREAMON 1) 0, Ioctl 4 (VIDIOC_STREAMON 2) 0,
         Poll 3 4 5000, Gettimeofday \<lparr>tv_sec = 1, tv_usec = 0\<rparr>,
         Gettimeofday \<lparr>tv_sec = 2, tv_usec = 0\<rparr>,
         Ioctl 3 (VIDIOC_DQBUF \<lparr>vb_index = 0, vb_type = 1, vb_memory = 4, vb_m_fd = 0\<rparr> 1) 0,
         Ioctl 4 (VIDIOC_QBUF \<lparr>vb_index = 1, vb_type = 2, vb_memory = 1, vb_m_fd = 11\<rparr>) 0,
         Poll 3 4 5000, Ioctl 3 (VIDIOC_STREAMOFF 1) 0, Ioctl 4 (VIDIOC_STREAMOFF 2) 0],
        Returned)
     \<and> reports (fst (stream_on (ex_ready 5) ?e)) = []"
    unfolding ex_hand_off_pass turned_on_def o d by simp
  with h1 h2 h3 show ?thesis by blast
qed

lemma stop_calls_input_part: "stop_calls (input_part s q p) = []"
  by (simp add: input_part_def stop_calls_append stop_calls_pace)

lemma stream_on_stops:
  assumes "in_pass e ps p" and "relay_iter s (prev_after s ps) p = (tp, Inl x)"
    and "x = PollDone \<or> x = Cancelled"
  shows "stop_calls (fst (stream_on s e)) =
           (fd (in_dev s), buf_type (in_dev s))
             # (if off_in_ret e < 0 then [] else [(fd (out_dev s), buf_type (out_dev s))])"
    and "snd (stream_on s e) =
           (if off_in_ret e < 0 \<or> off_out_ret e < 0 then Aborted StreamoffFailed
            else if x = PollDone then Returned else WorkerCancelled)"
proof -
  note l = stream_on_leaves [OF assms(1) in_pass_prev [OF assms(1)] assms(2)]
  from stop_calls_relay_iter [of s "prev_after s ps" p] assms(2)
  have tp: "stop_calls tp = []"
    by simp
  show "stop_calls (fst (stream_on s e)) =
           (fd (in_dev s), buf_type (in_dev s))
             # (if off_in_ret e < 0 then [] else [(fd (out_dev s), buf_type (out_dev s))])"
    using assms(3) unfolding l
    by (auto simp: stop_calls_append stop_calls_turned_on stop_calls_relay_loop tp
        stop_calls_stream_off)
  show "snd (stream_on s e) =
           (if off_in_ret e < 0 \<or> off_out_ret e < 0 then Aborted StreamoffFailed
            else if x = PollDone then Returned else WorkerCancelled)"
    using assms(3) unfolding l
    by (auto simp: stream_off_eq)
qed

lemma stream_on_crashes:
  assumes "in_pass e ps p"
    and "relay_iter s (prev_after s ps) p = (tp, Inl (Crashed f))"
  shows "stream_on s e = (turned_on s e @ fst (relay_loop s 0 ps) @ tp, Aborted f)"
    and "stop_calls (fst (stream_on s e)) = []"
proof -
  note l = stream_on_leaves [OF assms(1) in_pass_prev [OF assms(1)] assms(2)]
  from stop_calls_relay_iter [of s "prev_after s ps" p] assms(2)
  have tp: "stop_calls tp = []"
    by simp
  show "stream_on s e = (turned_on s e @ fst (relay_loop s 0 ps) @ tp, Aborted f)"
    unfolding l by simp
  show "stop_calls (fst (stream_on s e)) = []"
    unfolding l
    by (simp add: stop_calls_append stop_calls_turned_on stop_calls_relay_loop tp)
qed

lemma stream_on_returned:
  assumes "snd (stream_on s e) = Returned \<or> snd (stream_on s e) = WorkerCancelled"
  shows "fst (stream_on s e) = turned_on s e @ fst (relay_loop s 0 (iters e)) @ turned_off s e"
proof -
  obtain t x where l: "relay_loop s 0 (iters e) = (t, x)"
    by (cases "relay_loop s 0 (iters e)")
  have on: "0 \<le> on_in_ret e \<and> 0 \<le> on_out_ret e"
    using assms by (auto simp: stream_on_def device_on_def checked_eq split: if_splits)
  then have on': "0 \<le> on_in_ret e" "0 \<le> on_out_ret e"
    by simp_all
  show ?thesis
    using assms unfolding stream_on_started [OF on'] l
    by (auto simp: stream_off_eq turned_off_def split: sum.splits stop.splits if_splits)
qed

text \<open>
  C2, as the code has it. When the worker returns or is cancelled, the trace ends with
  the stop call of the input device followed by that of the output device, and these are
  the only stop calls of the run. When the loop is left in pass \<open>p\<close> because \<open>poll\<close>
  returned no readiness or was cancelled, or because the thread is cancelled in the
  pacing sleep, the cleanup handler runs once: the input device is stopped, and then the
  output device unless stopping the input failed; a failed stop call aborts the process.
  When a call fails at run time (\<open>VIDIOC_STREAMON\<close> on either device, or a
  \<open>VIDIOC_DQBUF\<close> or \<open>VIDIOC_QBUF\<close> of a pass), the process is aborted and no device
  receives a stop call.
\<close>

theorem C2_teardown:
  "(snd (stream_on s e) = Returned \<or> snd (stream_on s e) = WorkerCancelled \<longrightarrow>
      stop_calls (fst (stream_on s e)) =
        [(fd (in_dev s), buf_type (in_dev s)), (fd (out_dev s), buf_type (out_dev s))]
      \<and> fst (stream_on s e) =
          turned_on s e @ fst (relay_loop s 0 (iters e)) @ turned_off s e)
   \<and> (in_pass e ps p \<and> (\<not> polled p \<or> cancelled_in_sleep s (prev_after s ps) p) \<longrightarrow>
        stop_calls (fst (stream_on s e)) =
          (fd (in_dev s), buf_type (in_dev s))
            # (if off_in_ret e < 0 then [] else [(fd (out_dev s), buf_type (out_dev s))])
        \<and> snd (stream_on s e) =
            (if off_in_ret e < 0 \<or> off_out_ret e < 0 then Aborted StreamoffFailed
             else if poll_res p = PollCancelled \<or> polled p then WorkerCancelled
             else Returned))
   \<and> (on_in_ret e < 0 \<or> on_out_ret e < 0 \<longrightarrow>
        snd (stream_on s e) = Aborted StreamonFailed \<and> stop_calls (fst (stream_on s e)) = [])
   \<and> (in_pass e ps p
        \<and> (input_reached p \<and> (fst (in_dqbuf p) \<noteq> 0 \<or> out_qbuf p \<noteq> 0)
           \<or> output_reached p \<and> (fst (out_dqbuf p) \<noteq> 0 \<or> in_qbuf p \<noteq> 0)) \<longrightarrow>
        (\<exists>f. snd (stream_on s e) = Aborted f \<and> (f = DqbufFailed \<or> (\<exists>i. f = QbufFailed i)))
        \<and> stop_calls (fst (stream_on s e)) = [])"
proof (intro conjI impI)
  assume r: "snd (stream_on s e) = Returned \<or> snd (stream_on s e) = WorkerCancelled"
  from stream_on_returned [OF r]
  show t: "fst (stream_on s e) = turned_on s e @ fst (relay_loop s 0 (iters e)) @ turned_off s e" .
  show "stop_calls (fst (stream_on s e)) =
        [(fd (in_dev s), buf_type (in_dev s)), (fd (out_dev s), buf_type (out_dev s))]"
    unfolding t
    by (simp add: stop_calls_append stop_calls_turned_on stop_calls_relay_loop turned_off_def)
next
  assume a: "in_pass e ps p \<and> (\<not> polled p \<or> cancelled_in_sleep s (prev_after s ps) p)"
  then have ip: "in_pass e ps p"
    by simp
  from a consider (np) "\<not> polled p" | (cs) "polled p" "cancelled_in_sleep s (prev_after s ps) p"
    by blast
  then have "stop_calls (fst (stream_on s e)) =
          (fd (in_dev s), buf_type (in_dev s))
            # (if off_in_ret e < 0 then [] else [(fd (out_dev s), buf_type (out_dev s))])
        \<and> snd (stream_on s e) =
            (if off_in_ret e < 0 \<or> off_out_ret e < 0 then Aborted StreamoffFailed
             else if poll_res p = PollCancelled \<or> polled p then WorkerCancelled
             else Returned)"
  proof cases
    case np
    note i = relay_iter_not_polled [OF np, of s "prev_after s ps"]
    have x: "(if poll_res p = PollCancelled then Cancelled else PollDone) = PollDone
             \<or> (if poll_res p = PollCancelled then Cancelled else PollDone) = Cancelled"
      by simp
    from stream_on_stops [OF ip i x] np show ?thesis
      by simp
  next
    case cs
    note i = relay_iter_cancelled_in_sleep [OF cs(2)]
    from stream_on_stops [OF ip i] cs(1) show ?thesis
      by simp
  qed
  then show "stop_calls (fst (stream_on s e)) =
          (fd (in_dev s), buf_type (in_dev s))
            # (if off_in_ret e < 0 then [] else [(fd (out_dev s), buf_type (out_dev s))])"
    and "snd (stream_on s e) =
            (if off_in_ret e < 0 \<or> off_out_ret e < 0 then Aborted StreamoffFailed
             else if poll_res p = PollCancelled \<or> polled p then WorkerCancelled
             else Returned)"
    by simp_all
next
  assume a: "on_in_ret e < 0 \<or> on_out_ret e < 0"
  then consider "on_in_ret e < 0" | "0 \<le> on_in_ret e" "on_out_ret e < 0"
    by linarith
  then have "snd (stream_on s e) = Aborted StreamonFailed \<and> stop_calls (fst (stream_on s e)) = []"
  proof cases
    case 1
    then show ?thesis
      by (simp add: stream_on_in_fails)
  next
    case 2
    then show ?thesis
      by (simp add: stream_on_out_fails stop_calls_append stop_calls_turned_on)
  qed
  then show "snd (stream_on s e) = Aborted StreamonFailed"
    and "stop_calls (fst (stream_on s e)) = []"
    by simp_all
next
  assume a: "in_pass e ps p
        \<and> (input_reached p \<and> (fst (in_dqbuf p) \<noteq> 0 \<or> out_qbuf p \<noteq> 0)
           \<or> output_reached p \<and> (fst (out_dqbuf p) \<noteq> 0 \<or> in_qbuf p \<noteq> 0))"
  then have ip: "in_pass e ps p"
    by simp
  from a consider
      (a) "input_reached p" "fst (in_dqbuf p) \<noteq> 0"
    | (b) "input_reached p" "fst (in_dqbuf p) = 0" "out_qbuf p \<noteq> 0"
    | (c) "output_reached p" "fst (out_dqbuf p) \<noteq> 0"
    | (d) "output_reached p" "fst (out_dqbuf p) = 0" "in_qbuf p \<noteq> 0"
    by blast
  then have "(\<exists>f. snd (stream_on s e) = Aborted f \<and> (f = DqbufFailed \<or> (\<exists>i. f = QbufFailed i)))
        \<and> stop_calls (fst (stream_on s e)) = []"
  proof cases
    case a
    note c = stream_on_crashes [OF ip relay_iter_in_dequeue_fails [OF a]]
    show ?thesis
      using c(2) by (simp add: c(1))
  next
    case b
    note c = stream_on_crashes [OF ip relay_iter_out_enqueue_fails [OF b]]
    show ?thesis
      using c(2) by (simp add: c(1))
  next
    case c
    note c' = stream_on_crashes [OF ip relay_iter_out_dequeue_fails [OF c]]
    show ?thesis
      using c'(2) by (simp add: c'(1))
  next
    case d
    note c = stream_on_crashes [OF ip relay_iter_in_enqueue_fails [OF d]]
    show ?thesis
      using c(2) by (simp add: c(1))
  qed
  then show "\<exists>f. snd (stream_on s e) = Aborted f \<and> (f = DqbufFailed \<or> (\<exists>i. f = QbufFailed i))"
    and "stop_calls (fst (stream_on s e)) = []"
    by simp_all
qed


text \<open>
  C2 as stated fails for a runtime error: \<open>VIDIOC_DQBUF\<close> on the output device fails in
  the second pass, \<open>ASSERT\<close> aborts the process, and neither device receives a stop call.
\<close>

theorem C2_runtime_error_counterexample:
  "stream_on (ex_ready 5)
     (ex_on_env [ex_pass 1 POLLIN 0 1, (ex_pass 1 POLLOUT POLLOUT 1)\<lparr>out_dqbuf := (- 1, 0)\<rparr>,
                 ex_pass 0 0 0 0]) =
     ([Ioctl 3 (VIDIOC_STREAMON 1) 0, Ioctl 4 (VIDIOC_STREAMON 2) 0,
       Poll 3 4 5000, Gettimeofday \<lparr>tv_sec = 1, tv_usec = 0\<rparr>,
       Gettimeofday \<lparr>tv_sec = 2, tv_usec = 0\<rparr>,
       Ioctl 3 (VIDIOC_DQBUF \<lparr>vb_index = 0, vb_type = 1, vb_memory = 4, vb_m_fd = 0\<rparr> 1) 0,
       Ioctl 4 (VIDIOC_QBUF \<lparr>vb_index = 1, vb_type = 2, vb_memory = 1, vb_m_fd = 11\<rparr>) 0,
       Poll 3 4 5000,
       Ioctl 4 (VIDIOC_DQBUF \<lparr>vb_index = 0, vb_type = 2, vb_memory = 1, vb_m_fd = 0\<rparr> 0) (- 1),
       Fprintf_stderr DqbufFailed, Abort],
      Aborted DqbufFailed)
   \<and> stop_calls (fst (stream_on (ex_ready 5)
        (ex_on_env [ex_pass 1 POLLIN 0 1, (ex_pass 1 POLLOUT POLLOUT 1)\<lparr>out_dqbuf := (- 1, 0)\<rparr>,
                    ex_pass 0 0 0 0]))) = []"
  by code_simp

text \<open>
  Three runs of the stream of the example: a hand-off, a hand-back and a \<open>poll\<close> that
  times out, after which the worker stops both devices and returns; a hand-off and a
  hand-back whose enqueue to the input device fails; and a \<open>VIDIOC_STREAMON\<close> of the
  output device that fails.
\<close>

theorem C2_teardown_witness:
  "snd (stream_on (ex_ready 5)
          (ex_on_env [ex_pass 1 POLLIN 0 1, ex_pass 1 POLLOUT POLLOUT 1, ex_pass 0 0 0 0]))
     = Returned
   \<and> in_pass (ex_on_env [ex_pass 1 POLLIN 0 1, ex_pass 1 POLLOUT POLLOUT 1, ex_pass 0 0 0 0])
       [ex_pass 1 POLLIN 0 1, ex_pass 1 POLLOUT POLLOUT 1] (ex_pass 0 0 0 0)
   \<and> \<not> polled (ex_pass 0 0 0 0)
   \<and> stop_calls (fst (stream_on (ex_ready 5)
         (ex_on_env [ex_pass 1 POLLIN 0 1, ex_pass 1 POLLOUT POLLOUT 1, ex_pass 0 0 0 0])))
       = [(3, 1), (4, 2)]
   \<and> in_pass (ex_on_env [ex_pass 1 POLLIN 0 1, (ex_pass 1 POLLOUT POLLOUT 1)\<lparr>in_qbuf := - 1\<rparr>])
       [ex_pass 1 POLLIN 0 1] ((ex_pass 1 POLLOUT POLLOUT 1)\<lparr>in_qbuf := - 1\<rparr>)
   \<and> output_reached ((ex_pass 1 POLLOUT POLLOUT 1)\<lparr>in_qbuf := - 1\<rparr>)
   \<and> in_qbuf ((ex_pass 1 POLLOUT POLLOUT 1)\<lparr>in_qbuf := - 1\<rparr>) \<noteq> 0
   \<and> snd (stream_on (ex_ready 5)
            (ex_on_env [ex_pass 1 POLLIN 0 1, (ex_pass 1 POLLOUT POLLOUT 1)\<lparr>in_qbuf := - 1\<rparr>]))
       = Aborted (QbufFailed 1)
   \<and> stop_calls (fst (stream_on (ex_ready 5)
         (ex_on_env [ex_pass 1 POLLIN 0 1, (ex_pass 1 POLLOUT POLLOUT 1)\<lparr>in_qbuf := - 1\<rparr>])))
       = []
   \<and> on_out_ret ((ex_on_env [])\<lparr>on_out_ret := - 1\<rparr>) < 0
   \<and> snd (stream_on (ex_ready 5) ((ex_on_env [])\<lparr>on_out_ret := - 1\<rparr>)) = Aborted StreamonFailed
   \<and> stop_calls (fst (stream_on (ex_ready 5) ((ex_on_env [])\<lparr>on_out_ret := - 1\<rparr>))) = []"
proof -
  let ?s = "ex_ready 5"
  let ?e1 = "ex_on_env [ex_pass 1 POLLIN 0 1, ex_pass 1 POLLOUT POLLOUT 1, ex_pass 0 0 0 0]"
  let ?p2 = "(ex_pass 1 POLLOUT POLLOUT 1)\<lparr>in_qbuf := - 1\<rparr>"
  let ?e2 = "ex_on_env [ex_pass 1 POLLIN 0 1, ?p2]"
  let ?e3 = "(ex_on_env [])\<lparr>on_out_ret := - 1\<rparr>"
  have d: "fd (in_dev ?s) = 3" "fd (out_dev ?s) = 4"
    "buf_type (in_dev ?s) = 1" "buf_type (out_dev ?s) = 2"
    by (simp_all add: ex_ready_def)
  have r1: "snd (stream_on ?s ?e1) = Returned"
    by code_simp
  have h1: "in_pass ?e1 [ex_pass 1 POLLIN 0 1, ex_pass 1 POLLOUT POLLOUT 1] (ex_pass 0 0 0 0)"
    by code_simp
  have n1: "\<not> polled (ex_pass 0 0 0 0)"
    by code_simp
  have o1: "\<not> off_in_ret ?e1 < 0"
    by (simp add: ex_on_env_def)
  from r1 h1 n1
    C2_teardown [of ?s ?e1 "[ex_pass 1 POLLIN 0 1, ex_pass 1 POLLOUT POLLOUT 1]" "ex_pass 0 0 0 0"]
  have "stop_calls (fst (stream_on ?s ?e1)) =
          (fd (in_dev ?s), buf_type (in_dev ?s))
            # (if off_in_ret ?e1 < 0 then [] else [(fd (out_dev ?s), buf_type (out_dev ?s))])"
    by blast
  then have a: "stop_calls (fst (stream_on ?s ?e1)) = [(3, 1), (4, 2)]"
    using o1 by (simp only: d if_False)
  have h2: "in_pass ?e2 [ex_pass 1 POLLIN 0 1] ?p2"
    by code_simp
  have q2: "output_reached ?p2"
    by code_simp
  have f2: "in_qbuf ?p2 \<noteq> 0"
    by simp
  have r2: "snd (stream_on ?s ?e2) = Aborted (QbufFailed 1)"
    by code_simp
  from h2 q2 f2 C2_teardown [of ?s ?e2 "[ex_pass 1 POLLIN 0 1]" ?p2]
  have b: "stop_calls (fst (stream_on ?s ?e2)) = []"
    by blast
  have h3: "on_out_ret ?e3 < 0"
    by simp
  from h3 C2_teardown [of ?s ?e3 "[]" "ex_pass 0 0 0 0"]
  have c: "snd (stream_on ?s ?e3) = Aborted StreamonFailed
           \<and> stop_calls (fst (stream_on ?s ?e3)) = []"
    by blast
  from r1 h1 n1 a h2 q2 f2 r2 b h3 c show ?thesis
    by blast
qed

lemma reports_input_part: "reports (input_part s q p) = []"
  by (simp add: input_part_def reports_append reports_pace)

lemma reports_stream_on_crashes:
  assumes "in_pass e ps p"
    and "relay_iter s (prev_after s ps) p = (tp, Inl (Crashed f))"
  shows "reports (fst (stream_on s e)) = reports tp"
proof -
  from assms(1) have "list_all pass_ok ps"
    by (simp add: in_pass_def)
  then have r: "reports (fst (relay_loop s 0 ps)) = []"
    by (rule reports_relay_loop_ok)
  show ?thesis
    unfolding stream_on_crashes(1) [OF assms]
    by (simp add: reports_append reports_turned_on r)
qed

text \<open>
  C5, as the code has it. Let the worker be in a pass of its loop. When a
  \<open>VIDIOC_DQBUF\<close> or a \<open>VIDIOC_QBUF\<close> of that pass returns a non-zero value, the next
  things the program does are the message of \<open>ASSERT\<close> on the standard error (that of
  an enqueue carries the index of the buffer) and the call of \<open>abort()\<close>: the run ends
  there, aborted with that failure. The message is the only thing the run writes, and
  no device receives a stop call.
\<close>

theorem C5_runtime_failure_aborts:
  assumes "in_pass e ps p"
  shows "(input_reached p \<and> fst (in_dqbuf p) \<noteq> 0 \<longrightarrow>
            stream_on s e =
              (turned_on s e @ fst (relay_loop s 0 ps)
                 @ poll_call s # fst (pace (config s) (prev_after s ps) p)
                 @ [dequeue_call (in_dev s) (in_dqbuf p), Fprintf_stderr DqbufFailed, Abort],
               Aborted DqbufFailed))
       \<and> (input_reached p \<and> fst (in_dqbuf p) = 0 \<and> out_qbuf p \<noteq> 0 \<longrightarrow>
            stream_on s e =
              (turned_on s e @ fst (relay_loop s 0 ps)
                 @ poll_call s # fst (pace (config s) (prev_after s ps) p) @ hand_off s p
                 @ [Fprintf_stderr (QbufFailed (index (in_buffer s p))), Abort],
               Aborted (QbufFailed (index (in_buffer s p)))))
       \<and> (output_reached p \<and> fst (out_dqbuf p) \<noteq> 0 \<longrightarrow>
            stream_on s e =
              (turned_on s e @ fst (relay_loop s 0 ps) @ input_part s (prev_after s ps) p
                 @ [dequeue_call (out_dev s) (out_dqbuf p), Fprintf_stderr DqbufFailed, Abort],
               Aborted DqbufFailed))
       \<and> (output_reached p \<and> fst (out_dqbuf p) = 0 \<and> in_qbuf p \<noteq> 0 \<longrightarrow>
            stream_on s e =
              (turned_on s e @ fst (relay_loop s 0 ps) @ input_part s (prev_after s ps) p
                 @ hand_back s p
                 @ [Fprintf_stderr (QbufFailed (index (out_buffer s p))), Abort],
               Aborted (QbufFailed (index (out_buffer s p)))))
       \<and> (input_reached p \<and> (fst (in_dqbuf p) \<noteq> 0 \<or> out_qbuf p \<noteq> 0)
            \<or> output_reached p \<and> (fst (out_dqbuf p) \<noteq> 0 \<or> in_qbuf p \<noteq> 0) \<longrightarrow>
            (\<exists>f. snd (stream_on s e) = Aborted f
                  \<and> reports (fst (stream_on s e)) = [Fprintf_stderr f])
            \<and> stop_calls (fst (stream_on s e)) = [])"
proof -
  let ?q = "prev_after s ps"
  note ip = assms
  have fa: "stream_on s e =
              (turned_on s e @ fst (relay_loop s 0 ps)
                 @ poll_call s # fst (pace (config s) ?q p)
                 @ [dequeue_call (in_dev s) (in_dqbuf p), Fprintf_stderr DqbufFailed, Abort],
               Aborted DqbufFailed)
           \<and> reports (fst (stream_on s e)) = [Fprintf_stderr DqbufFailed]
           \<and> stop_calls (fst (stream_on s e)) = []"
    if h: "input_reached p" "fst (in_dqbuf p) \<noteq> 0"
  proof -
    note i = relay_iter_in_dequeue_fails [OF h, of s ?q]
    note c = stream_on_crashes [OF ip i] reports_stream_on_crashes [OF ip i]
    have r: "reports (fst (stream_on s e)) = [Fprintf_stderr DqbufFailed]"
      unfolding c(3) by (simp add: reports_append reports_pace)
    show ?thesis
      by (intro conjI) (rule c(1), rule r, rule c(2))
  qed
  have fb: "stream_on s e =
              (turned_on s e @ fst (relay_loop s 0 ps)
                 @ poll_call s # fst (pace (config s) ?q p) @ hand_off s p
                 @ [Fprintf_stderr (QbufFailed (index (in_buffer s p))), Abort],
               Aborted (QbufFailed (index (in_buffer s p))))
           \<and> reports (fst (stream_on s e)) = [Fprintf_stderr (QbufFailed (index (in_buffer s p)))]
           \<and> stop_calls (fst (stream_on s e)) = []"
    if h: "input_reached p" "fst (in_dqbuf p) = 0" "out_qbuf p \<noteq> 0"
  proof -
    note i = relay_iter_out_enqueue_fails [OF h, of s ?q]
    note c = stream_on_crashes [OF ip i] reports_stream_on_crashes [OF ip i]
    from h(1) have ipd: "input_polled p"
      by (simp add: input_reached_def)
    have r: "reports (fst (stream_on s e)) = [Fprintf_stderr (QbufFailed (index (in_buffer s p)))]"
      unfolding c(3) by (simp add: reports_append reports_input_part)
    have t: "stream_on s e =
              (turned_on s e @ fst (relay_loop s 0 ps)
                 @ poll_call s # fst (pace (config s) ?q p) @ hand_off s p
                 @ [Fprintf_stderr (QbufFailed (index (in_buffer s p))), Abort],
               Aborted (QbufFailed (index (in_buffer s p))))"
      unfolding c(1) by (simp add: input_part_def ipd)
    show ?thesis
      by (intro conjI) (rule t, rule r, rule c(2))
  qed
  have fc: "stream_on s e =
              (turned_on s e @ fst (relay_loop s 0 ps) @ input_part s ?q p
                 @ [dequeue_call (out_dev s) (out_dqbuf p), Fprintf_stderr DqbufFailed, Abort],
               Aborted DqbufFailed)
           \<and> reports (fst (stream_on s e)) = [Fprintf_stderr DqbufFailed]
           \<and> stop_calls (fst (stream_on s e)) = []"
    if h: "output_reached p" "fst (out_dqbuf p) \<noteq> 0"
  proof -
    note i = relay_iter_out_dequeue_fails [OF h, of s ?q]
    note c = stream_on_crashes [OF ip i] reports_stream_on_crashes [OF ip i]
    have r: "reports (fst (stream_on s e)) = [Fprintf_stderr DqbufFailed]"
      unfolding c(3) by (simp add: reports_append reports_input_part)
    show ?thesis
      by (intro conjI) (rule c(1), rule r, rule c(2))
  qed
  have fd: "stream_on s e =
              (turned_on s e @ fst (relay_loop s 0 ps) @ input_part s ?q p
                 @ hand_back s p
                 @ [Fprintf_stderr (QbufFailed (index (out_buffer s p))), Abort],
               Aborted (QbufFailed (index (out_buffer s p))))
           \<and> reports (fst (stream_on s e)) = [Fprintf_stderr (QbufFailed (index (out_buffer s p)))]
           \<and> stop_calls (fst (stream_on s e)) = []"
    if h: "output_reached p" "fst (out_dqbuf p) = 0" "in_qbuf p \<noteq> 0"
  proof -
    note i = relay_iter_in_enqueue_fails [OF h, of s ?q]
    note c = stream_on_crashes [OF ip i] reports_stream_on_crashes [OF ip i]
    have r: "reports (fst (stream_on s e)) = [Fprintf_stderr (QbufFailed (index (out_buffer s p)))]"
      unfolding c(3) by (simp add: reports_append reports_input_part)
    have t: "stream_on s e =
              (turned_on s e @ fst (relay_loop s 0 ps) @ input_part s ?q p
                 @ hand_back s p
                 @ [Fprintf_stderr (QbufFailed (index (out_buffer s p))), Abort],
               Aborted (QbufFailed (index (out_buffer s p))))"
      unfolding c(1) by simp
    show ?thesis
      by (intro conjI) (rule t, rule r, rule c(2))
  qed
  have m: "(\<exists>f. snd (stream_on s e) = Aborted f
                  \<and> reports (fst (stream_on s e)) = [Fprintf_stderr f])
            \<and> stop_calls (fst (stream_on s e)) = []"
    if h: "input_reached p \<and> (fst (in_dqbuf p) \<noteq> 0 \<or> out_qbuf p \<noteq> 0)
            \<or> output_reached p \<and> (fst (out_dqbuf p) \<noteq> 0 \<or> in_qbuf p \<noteq> 0)"
  proof -
    from h consider
        (a) "input_reached p" "fst (in_dqbuf p) \<noteq> 0"
      | (b) "input_reached p" "fst (in_dqbuf p) = 0" "out_qbuf p \<noteq> 0"
      | (c) "output_reached p" "fst (out_dqbuf p) \<noteq> 0"
      | (d) "output_reached p" "fst (out_dqbuf p) = 0" "in_qbuf p \<noteq> 0"
      by blast
    then show ?thesis
    proof cases
      case a
      note x = fa [OF a]
      from x have "snd (stream_on s e) = Aborted DqbufFailed"
        by simp
      moreover from x have "reports (fst (stream_on s e)) = [Fprintf_stderr DqbufFailed]"
        and "stop_calls (fst (stream_on s e)) = []"
        by blast+
      ultimately show ?thesis
        by blast
    next
      case b
      note x = fb [OF b]
      from x have "snd (stream_on s e) = Aborted (QbufFailed (index (in_buffer s p)))"
        by simp
      moreover from x
      have "reports (fst (stream_on s e)) = [Fprintf_stderr (QbufFailed (index (in_buffer s p)))]"
        and "stop_calls (fst (stream_on s e)) = []"
        by blast+
      ultimately show ?thesis
        by blast
    next
      case c
      note x = fc [OF c]
      from x have "snd (stream_on s e) = Aborted DqbufFailed"
        by simp
      moreover from x have "reports (fst (stream_on s e)) = [Fprintf_stderr DqbufFailed]"
        and "stop_calls (fst (stream_on s e)) = []"
        by blast+
      ultimately show ?thesis
        by blast
    next
      case d
      note x = fd [OF d]
      from x have "snd (stream_on s e) = Aborted (QbufFailed (index (out_buffer s p)))"
        by simp
      moreover from x
      have "reports (fst (stream_on s e)) = [Fprintf_stderr (QbufFailed (index (out_buffer s p)))]"
        and "stop_calls (fst (stream_on s e)) = []"
        by blast+
      ultimately show ?thesis
        by blast
    qed
  qed
  from fa fb fc fd m show ?thesis
    by blast
qed


text \<open>
  C5 as stated fails: \<open>VIDIOC_QBUF\<close> of buffer 1 to the output device fails; the message
  is printed, the process is aborted, the stream is not torn down and the next pass is
  not run.
\<close>

theorem C5_abort_counterexample:
  "stream_on (ex_ready 5)
     (ex_on_env [(ex_pass 1 POLLIN 0 1)\<lparr>out_qbuf := - 1\<rparr>, ex_pass 1 POLLOUT POLLOUT 1]) =
     ([Ioctl 3 (VIDIOC_STREAMON 1) 0, Ioctl 4 (VIDIOC_STREAMON 2) 0,
       Poll 3 4 5000, Gettimeofday \<lparr>tv_sec = 1, tv_usec = 0\<rparr>,
       Gettimeofday \<lparr>tv_sec = 2, tv_usec = 0\<rparr>,
       Ioctl 3 (VIDIOC_DQBUF \<lparr>vb_index = 0, vb_type = 1, vb_memory = 4, vb_m_fd = 0\<rparr> 1) 0,
       Ioctl 4 (VIDIOC_QBUF \<lparr>vb_index = 1, vb_type = 2, vb_memory = 1, vb_m_fd = 11\<rparr>) (- 1),
       Fprintf_stderr (QbufFailed 1), Abort],
      Aborted (QbufFailed 1))
   \<and> stop_calls (fst (stream_on (ex_ready 5)
        (ex_on_env [(ex_pass 1 POLLIN 0 1)\<lparr>out_qbuf := - 1\<rparr>, ex_pass 1 POLLOUT POLLOUT 1])))
       = []"
  by code_simp

text \<open>
  A run in which the first pass takes the input branch and \<open>VIDIOC_DQBUF\<close> on the input
  device fails.
\<close>

theorem C5_runtime_failure_aborts_witness:
  "in_pass (ex_on_env [(ex_pass 1 POLLIN 0 0)\<lparr>in_dqbuf := (- 1, 0)\<rparr>, ex_pass 0 0 0 0]) []
     ((ex_pass 1 POLLIN 0 0)\<lparr>in_dqbuf := (- 1, 0)\<rparr>)
   \<and> input_reached ((ex_pass 1 POLLIN 0 0)\<lparr>in_dqbuf := (- 1, 0)\<rparr>)
   \<and> fst (in_dqbuf ((ex_pass 1 POLLIN 0 0)\<lparr>in_dqbuf := (- 1, 0)\<rparr>)) \<noteq> 0
   \<and> stream_on (ex_ready 5)
       (ex_on_env [(ex_pass 1 POLLIN 0 0)\<lparr>in_dqbuf := (- 1, 0)\<rparr>, ex_pass 0 0 0 0]) =
       ([Ioctl 3 (VIDIOC_STREAMON 1) 0, Ioctl 4 (VIDIOC_STREAMON 2) 0,
         Poll 3 4 5000, Gettimeofday \<lparr>tv_sec = 1, tv_usec = 0\<rparr>,
         Gettimeofday \<lparr>tv_sec = 2, tv_usec = 0\<rparr>,
         Ioctl 3 (VIDIOC_DQBUF \<lparr>vb_index = 0, vb_type = 1, vb_memory = 4, vb_m_fd = 0\<rparr> 0) (- 1),
         Fprintf_stderr DqbufFailed, Abort],
        Aborted DqbufFailed)
   \<and> reports (fst (stream_on (ex_ready 5)
        (ex_on_env [(ex_pass 1 POLLIN 0 0)\<lparr>in_dqbuf := (- 1, 0)\<rparr>, ex_pass 0 0 0 0])))
       = [Fprintf_stderr DqbufFailed]
   \<and> stop_calls (fst (stream_on (ex_ready 5)
        (ex_on_env [(ex_pass 1 POLLIN 0 0)\<lparr>in_dqbuf := (- 1, 0)\<rparr>, ex_pass 0 0 0 0])))
       = []"
proof -
  let ?s = "ex_ready 5"
  let ?p = "(ex_pass 1 POLLIN 0 0)\<lparr>in_dqbuf := (- 1, 0)\<rparr>"
  let ?e = "ex_on_env [?p, ex_pass 0 0 0 0]"
  have h1: "in_pass ?e [] ?p"
    by code_simp
  have h2: "input_reached ?p"
    by code_simp
  have h3: "fst (in_dqbuf ?p) \<noteq> 0"
    by simp
  have v: "turned_on ?s ?e @ fst (relay_loop ?s 0 [])
             @ poll_call ?s # fst (pace (config ?s) (prev_after ?s []) ?p)
             @ [dequeue_call (in_dev ?s) (in_dqbuf ?p), Fprintf_stderr DqbufFailed, Abort]
           = [Ioctl 3 (VIDIOC_STREAMON 1) 0, Ioctl 4 (VIDIOC_STREAMON 2) 0,
              Poll 3 4 5000, Gettimeofday \<lparr>tv_sec = 1, tv_usec = 0\<rparr>,
              Gettimeofday \<lparr>tv_sec = 2, tv_usec = 0\<rparr>,
              Ioctl 3 (VIDIOC_DQBUF \<lparr>vb_index = 0, vb_type = 1, vb_memory = 4, vb_m_fd = 0\<rparr> 0) (- 1),
              Fprintf_stderr DqbufFailed, Abort]"
    by code_simp
  note t = C5_runtime_failure_aborts [OF h1, of ?s]
  from t h2 h3 have a: "stream_on ?s ?e =
       (turned_on ?s ?e @ fst (relay_loop ?s 0 [])
             @ poll_call ?s # fst (pace (config ?s) (prev_after ?s []) ?p)
             @ [dequeue_call (in_dev ?s) (in_dqbuf ?p), Fprintf_stderr DqbufFailed, Abort],
        Aborted DqbufFailed)"
    by blast
  from t h2 h3 have b: "(\<exists>f. snd (stream_on ?s ?e) = Aborted f
                  \<and> reports (fst (stream_on ?s ?e)) = [Fprintf_stderr f])
            \<and> stop_calls (fst (stream_on ?s ?e)) = []"
    by blast
  from a have a': "stream_on ?s ?e =
       ([Ioctl 3 (VIDIOC_STREAMON 1) 0, Ioctl 4 (VIDIOC_STREAMON 2) 0,
         Poll 3 4 5000, Gettimeofday \<lparr>tv_sec = 1, tv_usec = 0\<rparr>,
         Gettimeofday \<lparr>tv_sec = 2, tv_usec = 0\<rparr>,
         Ioctl 3 (VIDIOC_DQBUF \<lparr>vb_index = 0, vb_type = 1, vb_memory = 4, vb_m_fd = 0\<rparr> 0) (- 1),
         Fprintf_stderr DqbufFailed, Abort],
        Aborted DqbufFailed)"
    by (simp only: v)
  from a have "snd (stream_on ?s ?e) = Aborted DqbufFailed"
    by simp
  with b have c: "reports (fst (stream_on ?s ?e)) = [Fprintf_stderr DqbufFailed]"
    by auto
  from b have d: "stop_calls (fst (stream_on ?s ?e)) = []"
    by blast
  from h1 h2 h3 a' c d show ?thesis
    by blast
qed

subsection \<open>Pacing\<close>

lemma gap_sleeps_append:
  "gap_sleeps fi fo g (a @ b) =
     gap_sleeps fi fo g a @ gap_sleeps fi fo (foldl (gap_open fi fo) g a) b"
proof (induction a arbitrary: g)
  case Nil
  then show ?case by simp
next
  case (Cons ev a)
  then show ?case
    by (cases ev) simp_all
qed

lemma gap_pace:
  "gap_sleeps fi fo False (fst (pace c prev e)) = []"
  "foldl (gap_open fi fo) g (fst (pace c prev e)) = g"
  by (simp_all add: pace_eq)

lemma gap_input_ready:
  "gap_sleeps (fd (in_dev s)) (fd (out_dev s)) False (fst (input_ready s q p)) = []"
  "foldl (gap_open (fd (in_dev s)) (fd (out_dev s))) False (fst (input_ready s q p)) = False"
  by (simp_all add: input_ready_def fst_and_then snd_crash fst_crash gap_sleeps_append gap_pace
      dequeue_eq queue_eq split: sum.splits)

lemma gap_output_ready:
  "gap_sleeps (fd (in_dev s)) (fd (out_dev s)) False (fst (output_ready s p)) = []"
  "foldl (gap_open (fd (in_dev s)) (fd (out_dev s))) False (fst (output_ready s p)) = False"
  by (simp_all add: output_ready_def fst_and_then snd_crash fst_crash gap_sleeps_append
      dequeue_eq queue_eq split: sum.splits)

lemma gap_relay_iter:
  "gap_sleeps (fd (in_dev s)) (fd (out_dev s)) False (fst (relay_iter s q p)) = []"
  "foldl (gap_open (fd (in_dev s)) (fd (out_dev s))) False (fst (relay_iter s q p)) = False"
  by (simp_all add: relay_iter_def fst_and_then gap_sleeps_append gap_input_ready
      gap_output_ready split: sum.splits poll_result.splits)

lemma gap_relay_loop:
  "gap_sleeps (fd (in_dev s)) (fd (out_dev s)) False (fst (relay_loop s q ps)) = []"
  "foldl (gap_open (fd (in_dev s)) (fd (out_dev s))) False (fst (relay_loop s q ps)) = False"
proof (induction ps arbitrary: q)
  case Nil
  {
    case 1
    then show ?case by simp
  next
    case 2
    then show ?case by simp
  }
next
  case (Cons p ps)
  {
    case 1
    then show ?case
      using Cons by (simp add: fst_and_then gap_sleeps_append gap_relay_iter split: sum.splits)
  next
    case 2
    then show ?case
      using Cons by (simp add: fst_and_then gap_relay_iter split: sum.splits)
  }
qed

lemma gap_stream_off:
  "gap_sleeps fi fo g (fst (stream_off s r)) = []"
  by (cases r) (simp add: stream_off_eq)

lemma gap_device_on:
  "gap_sleeps fi fo g (fst (device_on d r)) = []"
  "foldl (gap_open fi fo) g (fst (device_on d r)) = g"
  by (simp_all add: device_on_def checked_eq)

lemma fst_stream_on:
  "fst (stream_on s e) =
     fst (device_on (in_dev s) (on_in_ret e))
     @ (if on_in_ret e < 0 then []
        else fst (device_on (out_dev s) (on_out_ret e))
          @ (if on_out_ret e < 0 then []
             else fst (relay_loop s 0 (iters e))
               @ (case snd (relay_loop s 0 (iters e)) of
                    Inr q \<Rightarrow> []
                  | Inl (Crashed f) \<Rightarrow> []
                  | Inl x \<Rightarrow> fst (stream_off s (off_in_ret e, off_out_ret e)))))"
proof -
  obtain t x where l: "relay_loop s 0 (iters e) = (t, x)"
    by (cases "relay_loop s 0 (iters e)")
  obtain t' y where o: "stream_off s (off_in_ret e, off_out_ret e) = (t', y)"
    by (cases "stream_off s (off_in_ret e, off_out_ret e)")
  show ?thesis
    by (simp add: stream_on_def device_on_def checked_eq l o split: sum.splits stop.splits)
qed

lemma gap_stream_on:
  "gap_sleeps (fd (in_dev s)) (fd (out_dev s)) False (fst (stream_on s e)) = []"
  unfolding fst_stream_on
  by (simp add: gap_sleeps_append gap_device_on gap_relay_loop gap_stream_off
      split: sum.splits stop.splits)

lemma fst_input_ready:
  "fst (input_ready s q p) =
     fst (pace (config s) q p)
     @ (case snd (pace (config s) q p) of
          Inl x \<Rightarrow> []
        | Inr q' \<Rightarrow>
            dequeue_call (in_dev s) (in_dqbuf p)
              # (if fst (in_dqbuf p) \<noteq> 0 then [Fprintf_stderr DqbufFailed, Abort]
                 else enqueue_call (out_dev s) (in_buffer s p) (out_qbuf p)
                        # (if out_qbuf p \<noteq> 0
                           then [Fprintf_stderr (QbufFailed (index (in_buffer s p))), Abort]
                           else [])))"
  by (simp add: input_ready_def fst_and_then snd_crash fst_crash dequeue_eq queue_eq
      split: sum.splits)

text \<open>
  The observation \<open>gap_sleeps\<close> does see a sleep that falls between a dequeue from the
  input device and the enqueue to the output device.
\<close>

lemma gap_sleeps_sees:
  "gap_sleeps 3 4 False
     [Ioctl 3 (VIDIOC_DQBUF vb 1) 0, Usleep 5, Ioctl 4 (VIDIOC_QBUF vb') 0, Usleep 7] = [5]"
  by simp

text \<open>
  C1. In no run of \<open>stream_on\<close> does a pacing sleep fall between a dequeue from the
  input device and the enqueue to the output device that follows it: in the input branch
  the dequeue comes after the whole pacing block, and the enqueue (or the abort of a
  failed dequeue) comes right after the dequeue. This holds for every stream, whatever
  its rate, so in particular for a rate that is not positive.
\<close>

theorem C1_no_sleep_in_hand_off:
  "gap_sleeps (fd (in_dev s)) (fd (out_dev s)) False (fst (stream_on s e)) = []
   \<and> fst (input_ready s q p) =
       fst (pace (config s) q p)
       @ (case snd (pace (config s) q p) of
            Inl x \<Rightarrow> []
          | Inr q' \<Rightarrow>
              dequeue_call (in_dev s) (in_dqbuf p)
                # (if fst (in_dqbuf p) \<noteq> 0 then [Fprintf_stderr DqbufFailed, Abort]
                   else enqueue_call (out_dev s) (in_buffer s p) (out_qbuf p)
                          # (if out_qbuf p \<noteq> 0
                             then [Fprintf_stderr (QbufFailed (index (in_buffer s p))), Abort]
                             else [])))"
  using gap_stream_on [of s e] fst_input_ready [of s q p] by (rule conjI)

text \<open>
  A free-run stream (\<open>fps = -1\<close>): no sleep falls between the dequeue and the enqueue.
  The run also shows what free run is in the code: \<open>stream_init\<close> stores \<open>-1\<close> in the
  unsigned \<open>frame_us\<close>, which is 4294967295, so the test \<open>frame_us > 0\<close> holds and the
  worker calls \<open>usleep\<close> before the dequeue; with the clock at 1.000000 s and
  \<open>prev = 0\<close> the sleep asked for is 4293967295 microseconds.
\<close>

theorem C1_no_sleep_in_hand_off_witness:
  "sint (fps (config (ex_ready (- 1)))) \<le> 0
   \<and> stream_on (ex_ready (- 1)) (ex_on_env [ex_pass 1 POLLIN 0 1]) =
       ([Ioctl 3 (VIDIOC_STREAMON 1) 0, Ioctl 4 (VIDIOC_STREAMON 2) 0,
         Poll 3 4 5000, Gettimeofday \<lparr>tv_sec = 1, tv_usec = 0\<rparr>, Usleep 4293967295,
         Gettimeofday \<lparr>tv_sec = 2, tv_usec = 0\<rparr>,
         Ioctl 3 (VIDIOC_DQBUF \<lparr>vb_index = 0, vb_type = 1, vb_memory = 4, vb_m_fd = 0\<rparr> 1) 0,
         Ioctl 4 (VIDIOC_QBUF \<lparr>vb_index = 1, vb_type = 2, vb_memory = 1, vb_m_fd = 11\<rparr>) 0],
        Running)
   \<and> gap_sleeps 3 4 False (fst (stream_on (ex_ready (- 1)) (ex_on_env [ex_pass 1 POLLIN 0 1])))
       = []"
proof -
  have a: "sint (fps (config (ex_ready (- 1)))) \<le> 0"
    by (simp add: ex_ready_def)
  have b: "stream_on (ex_ready (- 1)) (ex_on_env [ex_pass 1 POLLIN 0 1]) =
       ([Ioctl 3 (VIDIOC_STREAMON 1) 0, Ioctl 4 (VIDIOC_STREAMON 2) 0,
         Poll 3 4 5000, Gettimeofday \<lparr>tv_sec = 1, tv_usec = 0\<rparr>, Usleep 4293967295,
         Gettimeofday \<lparr>tv_sec = 2, tv_usec = 0\<rparr>,
         Ioctl 3 (VIDIOC_DQBUF \<lparr>vb_index = 0, vb_type = 1, vb_memory = 4, vb_m_fd = 0\<rparr> 1) 0,
         Ioctl 4 (VIDIOC_QBUF \<lparr>vb_index = 1, vb_type = 2, vb_memory = 1, vb_m_fd = 11\<rparr>) 0],
        Running)"
    by code_simp
  have d: "fd (in_dev (ex_ready (- 1))) = 3" "fd (out_dev (ex_ready (- 1))) = 4"
    by (simp_all add: ex_ready_def)
  from C1_no_sleep_in_hand_off [of "ex_ready (- 1)" "ex_on_env [ex_pass 1 POLLIN 0 1]"]
  have c: "gap_sleeps 3 4 False
             (fst (stream_on (ex_ready (- 1)) (ex_on_env [ex_pass 1 POLLIN 0 1]))) = []"
    by (simp only: d)
  from a b c show ?thesis
    by blast
qed

text \<open>The same for every non-positive rate and every reading of the clock but one.\<close>

lemma frame_us_of_nonpositive: "sint f \<le> 0 \<Longrightarrow> frame_us_of f = - 1"
  by (simp add: frame_us_of_def)

lemma pace_free_run:
  assumes "sint (fps c) \<le> 0" and "frame_us c = frame_us_of (fps c)"
    and "usec_of (now_before e) - prev \<noteq> - 1"
  shows "sleeps (fst (pace c prev e)) = [- 1 - (usec_of (now_before e) - prev)]"
proof -
  have f: "frame_us c = - 1"
    using assms(1,2) by (simp add: frame_us_of_nonpositive)
  have "usec_of (now_before e) - prev < - 1"
    using assms(3) by (simp add: word_order.not_eq_extremum)
  moreover have "(0::u32) < - 1"
    by (simp add: word_gt_0)
  ultimately show ?thesis
    by (simp add: pace_def f Let_def)
qed








subsection \<open>Conservation of the buffers\<close>
















































end
